theory Spec2Isabelle
  imports Complex_Main "HOL-Library.List_Lexorder" "HOL-Library.Char_ord"
begin

section \<open>Python values and primitives used by the sources\<close>

text \<open>
  Strings are lists of 8-bit characters, so the embedding covers Latin-1 text.
  A Python exception is a value of \<open>exn\<close>; a computation that may raise returns
  \<open>exn + 'a\<close> with \<open>Inl\<close> for the exception. \<open>exn_str\<close> is Python's \<open>str(e)\<close>.
\<close>

datatype exn =
    ValueError string
  | IndexError string
  | KeyError string
  | NameError string
  | TypeError string
  | IllTyped string

fun exn_str :: "exn \<Rightarrow> string" where
  "exn_str (ValueError m) = m"
| "exn_str (IndexError m) = m"
| "exn_str (KeyError k) = [CHR 0x27] @ k @ [CHR 0x27]"
| "exn_str (NameError n) = ''name '' @ [CHR 0x27] @ n @ [CHR 0x27] @ '' is not defined''"
| "exn_str (TypeError m) = m"
| "exn_str (IllTyped m) = m"

definition exn_bind :: "exn + 'a \<Rightarrow> ('a \<Rightarrow> exn + 'b) \<Rightarrow> exn + 'b" where
  "exn_bind m f = (case m of Inl e \<Rightarrow> Inl e | Inr x \<Rightarrow> f x)"

text \<open>\<open>xs[i]\<close> for a non-negative literal index: IndexError out of range.\<close>

definition py_index :: "'a list \<Rightarrow> nat \<Rightarrow> exn + 'a" where
  "py_index xs i = (if i < length xs then Inr (xs ! i) else Inl (IndexError ''list index out of range''))"

text \<open>\<open>stack.pop()\<close>: the list without its last element and that element.\<close>

definition py_pop :: "'a list \<Rightarrow> exn + ('a list \<times> 'a)" where
  "py_pop xs = (if xs = [] then Inl (IndexError ''pop from empty list'') else Inr (butlast xs, last xs))"

text \<open>
  The characters \<open>str.strip()\<close> removes and the regular expression class \<open>\s\<close> matches,
  among the code points below 256: 9 to 13, 28 to 32, 133 and 160.
\<close>

definition py_isspace :: "char \<Rightarrow> bool" where
  "py_isspace c = (let n = (of_char c :: nat) in (9 \<le> n \<and> n \<le> 13) \<or> (28 \<le> n \<and> n \<le> 32) \<or> n = 133 \<or> n = 160)"

definition py_isdigit :: "char \<Rightarrow> bool" where
  "py_isdigit c = (let n = (of_char c :: nat) in 48 \<le> n \<and> n \<le> 57)"

definition py_strip :: "string \<Rightarrow> string" where
  "py_strip s = rev (dropWhile py_isspace (rev (dropWhile py_isspace s)))"

text \<open>\<open>s.startswith(p)\<close>.\<close>

fun startswith :: "string \<Rightarrow> string \<Rightarrow> bool" where
  "startswith s [] = True"
| "startswith [] (p # ps) = False"
| "startswith (c # cs) (p # ps) = (c = p \<and> startswith cs ps)"

text \<open>\<open>sub in s\<close> for strings: \<open>sub\<close> occurs in \<open>s\<close> as a contiguous substring.\<close>

fun py_in :: "string \<Rightarrow> string \<Rightarrow> bool" where
  "py_in sub [] = (sub = [])"
| "py_in sub (c # cs) = (startswith (c # cs) sub \<or> py_in sub cs)"

text \<open>
  \<open>s.split(sep)\<close> for a non-empty literal separator: the pieces between the
  non-overlapping occurrences of \<open>sep\<close>, scanned from the left. \<open>acc\<close> holds the
  current piece reversed. (Python raises for an empty separator; the sources only
  pass the literals \<open>(\<close>, \<open>>\<close>, \<open><\<close>, \<open>==\<close>, \<open>!=\<close> and \<open>.\<close>.)
\<close>

fun split_acc :: "string \<Rightarrow> string \<Rightarrow> string \<Rightarrow> string list" where
  "split_acc sep acc [] = [rev acc]"
| "split_acc sep acc (c # cs) =
     (if startswith (c # cs) sep then rev acc # split_acc sep [] (drop (length sep - 1) cs)
      else split_acc sep (c # acc) cs)"

definition py_split :: "string \<Rightarrow> string \<Rightarrow> string list" where
  "py_split s sep = split_acc sep [] s"

text \<open>\<open>sep.join(parts)\<close>.\<close>

fun py_join :: "string \<Rightarrow> string list \<Rightarrow> string" where
  "py_join sep [] = []"
| "py_join sep [x] = x"
| "py_join sep (x # y # ys) = x @ sep @ py_join sep (y # ys)"

section \<open>conditions.py: ConditionValidator\<close>

text \<open>
  \<open>BASIC_CONDITIONS\<close> and \<open>CLASS_CONDITIONS\<close> map a category to a dictionary from
  subcategory key to a description. Only the keys are read by the code modelled here,
  so each category carries the list of its keys, in the order of the source.
\<close>

definition BASIC_CONDITIONS :: "(string \<times> string list) list" where
  "BASIC_CONDITIONS =
    [(''player'',
       [''health'', ''health.actual'', ''health.max'', ''mana'', ''rage'', ''energy'', ''focus'',
        ''runicpower'', ''holypower'', ''chi'', ''soulshards'', ''eclipse'', ''combopoints'',
        ''buff'', ''buff.any'', ''buff.count'', ''buff.duration'',
        ''debuff'', ''debuff.any'', ''debuff.count'', ''debuff.duration'',
        ''moving'', ''movingfor'', ''casting'', ''casting.percent'', ''casting.delta'',
        ''channeling'', ''stance'', ''form'', ''seal'', ''lastcast'', ''level'', ''spec'',
        ''talent'', ''glyph'']),
     (''target'',
       [''health'', ''health.actual'', ''health.max'', ''exists'', ''enemy'', ''friend'', ''name'',
        ''distance'', ''range'', ''debuff'', ''debuff.any'', ''debuff.count'', ''debuff.duration'',
        ''casting'', ''casting.percent'', ''casting.delta'', ''interruptsat'', ''moving'',
        ''level'', ''classification'', ''creatureType'', ''boss'', ''id'', ''threat'', ''isplayer'']),
     (''spell'', [''cooldown'', ''charges'', ''usable'', ''exists'', ''range'', ''casted'']),
     (''area'', [''enemies'', ''friendly'']),
     (''group'', [''members'', ''avghealth'', ''raid'', ''party'']),
     (''toggle'', [''cooldowns'', ''aoe'', ''interrupt'', ''custom'']),
     (''modifier'',
       [''shift'', ''control'', ''alt'', ''lshift'', ''lcontrol'', ''lalt'', ''rshift'',
        ''rcontrol'', ''ralt''])]"

definition CLASS_CONDITIONS :: "(string \<times> string list) list" where
  "CLASS_CONDITIONS =
    [(''Druid'', [''solar'', ''lunar'', ''eclipse'', ''balance.sun'', ''balance.moon'', ''mushrooms'']),
     (''Death Knight'', [''runes.count'', ''runes.frac'', ''runes.depleted'']),
     (''Warlock'', [''embers'', ''demonicfury''])]"

definition OPERATORS :: "string list" where
  "OPERATORS = [''>'', ''<'', ''>='', ''<='', ''=='', ''!='', ''&&'', ''||'', ''!'']"

definition valid_chars :: "string" where
  "valid_chars = ''abcdefghijklmnopqrstuvwxyzABCDEFGHIJKLMNOPQRSTUVWXYZ'' @ ''0123456789._()!&|<>= ''"

definition check_basic_syntax :: "string \<Rightarrow> bool" where
  "check_basic_syntax condition =
     (if py_in ''  '' condition then False
      else if \<not> list_all (\<lambda>c. c \<in> set valid_chars) condition then False
      else True)"

definition invalid_combinations :: "string list" where
  "invalid_combinations = [''&&&&'', ''||||'', ''!!'', ''<<'', ''>>'', ''==>'', ''<=='']"

definition validate_operators :: "string \<Rightarrow> bool" where
  "validate_operators condition =
     (if list_ex (\<lambda>combo. py_in combo condition) invalid_combinations then False
      else if list_ex (\<lambda>op. py_in op condition \<and>
                 \<not> (py_in ('' '' @ op @ '' '') condition \<or> startswith condition (op @ '' '')))
               OPERATORS then False
      else True)"

fun parentheses_loop :: "string \<Rightarrow> char list \<Rightarrow> exn + bool" where
  "parentheses_loop [] stack = Inr (length stack = 0)"
| "parentheses_loop (c # cs) stack =
     (if c = CHR ''(''  then parentheses_loop cs (stack @ [c])
      else if c = CHR '')'' then
        (if stack = [] then Inr False
         else (case py_pop stack of
                 Inl e \<Rightarrow> Inl e
               | Inr (stack', popped) \<Rightarrow> parentheses_loop cs stack'))
      else parentheses_loop cs stack)"

definition validate_parentheses :: "string \<Rightarrow> exn + bool" where
  "validate_parentheses condition = parentheses_loop condition []"

text \<open>
  \<open>re.split(r'\s+(?:&&|\|\|)\s+', condition)\<close>. A match starts at a whitespace
  character, takes the whole run of whitespace (greedy; the next character must be
  \<open>&\<close> or \<open>|\<close>, so no shorter run can match), then \<open>&&\<close> or \<open>||\<close>, then at least one
  whitespace character and the rest of that run. \<open>sep_match s\<close> is the text after a
  match that starts at the head of \<open>s\<close>. The scan takes the leftmost match, emits the
  piece before it and goes on after it.
\<close>

definition sep_match :: "string \<Rightarrow> string option" where
  "sep_match s =
     (let ws = takeWhile py_isspace s; r = dropWhile py_isspace s in
      if ws = [] then None
      else if startswith r ''&&'' \<or> startswith r ''||'' then
        (let r' = drop 2 r in
         if takeWhile py_isspace r' = [] then None else Some (dropWhile py_isspace r'))
      else None)"

function re_split_logical :: "string \<Rightarrow> string \<Rightarrow> string list" where
  "re_split_logical acc [] = [rev acc]"
| "re_split_logical acc (c # cs) =
     (case sep_match (c # cs) of
        Some r \<Rightarrow> rev acc # re_split_logical [] r
      | None \<Rightarrow> re_split_logical (c # acc) cs)"
  by pat_completeness auto
termination
proof (relation "measure (\<lambda>(acc, s). length s)")
  show "wf (measure (\<lambda>(acc, s). length s))" by simp
next
  fix acc :: string and c :: char and cs r :: string
  assume a: "sep_match (c # cs) = Some r"
  have d: "length (dropWhile py_isspace t) \<le> length t" for t
    by (rule length_dropWhile_le)
  from a have sp: "py_isspace c"
    by (auto simp: sep_match_def Let_def split: if_splits)
  from a have "r = dropWhile py_isspace (drop 2 (dropWhile py_isspace (c # cs)))"
    by (auto simp: sep_match_def Let_def split: if_splits)
  moreover from sp have "length (dropWhile py_isspace (c # cs)) \<le> length cs"
    by (simp add: d)
  moreover have "length (dropWhile py_isspace (drop 2 (dropWhile py_isspace (c # cs))))
      \<le> length (drop 2 (dropWhile py_isspace (c # cs)))"
    by (rule d)
  ultimately have "length r < length (c # cs)" by simp
  then show "(([], r), (acc, c # cs)) \<in> measure (\<lambda>(acc, s). length s)" by simp
next
  fix acc :: string and c :: char and cs :: string
  show "((c # acc, cs), (acc, c # cs)) \<in> measure (\<lambda>(acc, s). length s)" by simp
qed

text \<open>The body of the loop of \<open>_validate_components\<close> up to the extracted base.\<close>

definition extract_base :: "string \<Rightarrow> exn + string" where
  "extract_base component =
     exn_bind (if py_in ''('' component then py_index (py_split component ''('') 0 else Inr component)
       (\<lambda>b0. exn_bind (if py_in ''>'' component then py_index (py_split b0 ''>'') 0 else Inr b0)
       (\<lambda>b1. exn_bind (if py_in ''<'' component then py_index (py_split b1 ''<'') 0 else Inr b1)
       (\<lambda>b2. exn_bind (if py_in ''=='' component then py_index (py_split b2 ''=='') 0 else Inr b2)
       (\<lambda>b3. if py_in ''!='' component then py_index (py_split b3 ''!='') 0 else Inr b3))))"

text \<open>
  One iteration of the loop: \<open>Inr False\<close> is the early \<open>return False\<close>, \<open>Inr True\<close>
  lets the loop go on.
\<close>

definition component_ok :: "string \<Rightarrow> exn + bool" where
  "component_ok component0 =
     (let component = (if startswith component0 ''!'' then drop 1 component0 else component0) in
      exn_bind (extract_base component)
        (\<lambda>base.
           let parts = py_split base ''.'' in
           if length parts < 2 then Inr False
           else exn_bind (py_index parts 0)
             (\<lambda>category. exn_bind (py_index parts 1)
             (\<lambda>subcategory.
                case map_of BASIC_CONDITIONS category of
                  None \<Rightarrow> Inr False
                | Some subs \<Rightarrow> if subcategory \<notin> set subs then Inr False else Inr True))))"

fun components_loop :: "string list \<Rightarrow> exn + bool" where
  "components_loop [] = Inr True"
| "components_loop (component # rest) =
     exn_bind (component_ok component) (\<lambda>ok. if ok then components_loop rest else Inr False)"

definition validate_components :: "string \<Rightarrow> exn + bool" where
  "validate_components condition = components_loop (re_split_logical [] condition)"

text \<open>The \<open>try\<close> block of \<open>validate_condition\<close>, on the stripped condition.\<close>

definition validate_body :: "string \<Rightarrow> exn + (bool \<times> string)" where
  "validate_body condition =
     (if \<not> check_basic_syntax condition then Inr (False, ''Invalid condition syntax'')
      else if \<not> validate_operators condition then Inr (False, ''Invalid operator usage'')
      else exn_bind (validate_parentheses condition)
        (\<lambda>balanced. if \<not> balanced then Inr (False, ''Mismatched parentheses'')
           else exn_bind (validate_components condition)
             (\<lambda>known. if \<not> known then Inr (False, ''Invalid condition components'')
                else Inr (True, ''''))))"

text \<open>The handler \<open>except Exception as e\<close> around that block.\<close>

fun catch_validation :: "exn + (bool \<times> string) \<Rightarrow> bool \<times> string" where
  "catch_validation (Inr result) = result"
| "catch_validation (Inl e) = (False, ''Validation error: '' @ exn_str e)"

definition validate_condition :: "string \<Rightarrow> bool \<times> string" where
  "validate_condition condition =
     (if condition = [] \<or> py_strip condition = ''true'' then (True, '''')
      else catch_validation (validate_body (py_strip condition)))"

section \<open>conditions.py: ConditionBuilder\<close>

record ConditionBuilder =
  condition_parts :: "string list"
  current_class :: "string option"

definition builder_init :: "ConditionBuilder" where
  "builder_init = \<lparr>condition_parts = [], current_class = None\<rparr>"

definition set_class :: "ConditionBuilder \<Rightarrow> string \<Rightarrow> ConditionBuilder" where
  "set_class b class_name = b\<lparr>current_class := Some class_name\<rparr>"

text \<open>
  \<open>operator\<close> and \<open>value\<close> default to the empty string; the comparison is appended
  only when both are non-empty.
\<close>

definition add_condition_part :: "ConditionBuilder \<Rightarrow> string \<Rightarrow> string \<Rightarrow> string \<Rightarrow> string \<Rightarrow> ConditionBuilder" where
  "add_condition_part b category condition operator val =
     (let condition_str = category @ ''.'' @ condition;
          condition_str' = (if operator \<noteq> [] \<and> val \<noteq> [] then condition_str @ '' '' @ operator @ '' '' @ val
                            else condition_str)
      in b\<lparr>condition_parts := condition_parts b @ [condition_str']\<rparr>)"

definition add_logical_operator :: "ConditionBuilder \<Rightarrow> string \<Rightarrow> ConditionBuilder" where
  "add_logical_operator b operator = b\<lparr>condition_parts := condition_parts b @ [operator]\<rparr>"

definition add_not_operator :: "ConditionBuilder \<Rightarrow> ConditionBuilder" where
  "add_not_operator b =
     (if condition_parts b \<noteq> [] \<and> last (condition_parts b) \<notin> set [''&&'', ''||'']
      then b\<lparr>condition_parts := condition_parts b @ [''!'']\<rparr>
      else b)"

definition get_condition :: "ConditionBuilder \<Rightarrow> string" where
  "get_condition b = py_join '' '' (condition_parts b)"

definition clear :: "ConditionBuilder \<Rightarrow> ConditionBuilder" where
  "clear b = b\<lparr>condition_parts := []\<rparr>"

definition remove_last :: "ConditionBuilder \<Rightarrow> ConditionBuilder" where
  "remove_last b = (if condition_parts b \<noteq> [] then b\<lparr>condition_parts := butlast (condition_parts b)\<rparr> else b)"

definition get_available_categories :: "ConditionBuilder \<Rightarrow> string list" where
  "get_available_categories b =
     sort (map fst BASIC_CONDITIONS @
       (case current_class b of
          None \<Rightarrow> []
        | Some c \<Rightarrow> if c \<noteq> [] \<and> map_of CLASS_CONDITIONS c \<noteq> None then [c] else []))"

definition get_conditions_for_category :: "ConditionBuilder \<Rightarrow> string \<Rightarrow> string list" where
  "get_conditions_for_category b category =
     (case map_of BASIC_CONDITIONS category of
        Some subs \<Rightarrow> subs
      | None \<Rightarrow>
         (if Some category = current_class b then
            (case map_of CLASS_CONDITIONS category of Some subs \<Rightarrow> subs | None \<Rightarrow> [])
          else []))"

definition builder_validate :: "ConditionBuilder \<Rightarrow> bool \<times> string" where
  "builder_validate b = validate_condition (get_condition b)"

section \<open>spell_data.py\<close>

text \<open>
  The two catalogues are dictionaries of dictionaries; they are kept as association
  lists in the order of the source, which is the order in which the importers iterate
  over \<open>SPEC_IDS\<close>.
\<close>

definition SPEC_IDS :: "(string \<times> (string \<times> int) list) list" where
  "SPEC_IDS =
    [(''Mage'', [(''Arcane'', 62), (''Fire'', 63), (''Frost'', 64)]),
     (''Paladin'', [(''Holy'', 65), (''Protection'', 66), (''Retribution'', 70)]),
     (''Warrior'', [(''Arms'', 71), (''Fury'', 72), (''Protection'', 73)]),
     (''Druid'', [(''Balance'', 102), (''Feral'', 103), (''Guardian'', 104), (''Restoration'', 105)]),
     (''Death Knight'', [(''Blood'', 250), (''Frost'', 251), (''Unholy'', 252)]),
     (''Hunter'', [(''Beast Mastery'', 253), (''Marksmanship'', 254), (''Survival'', 255)]),
     (''Priest'', [(''Discipline'', 256), (''Holy'', 257), (''Shadow'', 258)]),
     (''Rogue'', [(''Assassination'', 259), (''Combat'', 260), (''Subtlety'', 261)]),
     (''Shaman'', [(''Elemental'', 262), (''Enhancement'', 263), (''Restoration'', 264)]),
     (''Warlock'', [(''Affliction'', 265), (''Demonology'', 266), (''Destruction'', 267)]),
     (''Monk'', [(''Brewmaster'', 268), (''Windwalker'', 269), (''Mistweaver'', 270)])]"

definition SPELL_DATA :: "(string \<times> (string \<times> string list) list) list" where
  "SPELL_DATA =
    [(''Mage'',
       [(''Arcane'',
         [''Arcane Blast'', ''Arcane Missiles'', ''Arcane Barrage'', ''Arcane Power'',
          ''Arcane Brilliance'', ''Evocation'', ''Blink'', ''Frost Nova'', ''Slow'',
          ''Presence of Mind'', ''Time Warp'', ''Mirror Image'', ''Invisibility'',
          ''Conjure Mana Gem'', ''Arcane Explosion'', ''Counterspell'', ''Spellsteal'',
          ''Remove Curse'', ''Flamestrike'', ''Polymorph'', ''Ice Block'']),
        (''Fire'',
         [''Fireball'', ''Pyroblast'', ''Fire Blast'', ''Flamestrike'', ''Combustion'',
          (''Dragon'' @ [CHR 0x27] @ ''s Breath''), ''Scorch'', ''Living Bomb'', ''Blast Wave'',
          ''Molten Armor'', ''Arcane Brilliance'', ''Evocation'', ''Blink'', ''Frost Nova'',
          ''Mirror Image'', ''Time Warp'', ''Invisibility'', ''Conjure Mana Gem'',
          ''Counterspell'', ''Spellsteal'', ''Remove Curse'', ''Polymorph'', ''Ice Block'']),
        (''Frost'',
         [''Frostbolt'', ''Ice Lance'', ''Frost Nova'', ''Blizzard'', ''Frozen Orb'',
          ''Icy Veins'', ''Cone of Cold'', ''Frostfire Bolt'', ''Ice Barrier'', ''Cold Snap'',
          ''Frost Armor'', ''Arcane Brilliance'', ''Evocation'', ''Blink'', ''Mirror Image'',
          ''Time Warp'', ''Invisibility'', ''Conjure Mana Gem'', ''Counterspell'',
          ''Spellsteal'', ''Remove Curse'', ''Polymorph'', ''Ice Block''])]),
     (''Paladin'',
       [(''Holy'',
         [''Holy Light'', ''Divine Light'', ''Holy Shock'', ''Word of Glory'', ''Holy Radiance'',
          ''Light of Dawn'', ''Beacon of Light'', ''Divine Shield'', ''Divine Protection'',
          ''Lay on Hands'', ''Blessing of Kings'', ''Blessing of Might'', ''Hand of Protection'',
          ''Hand of Freedom'', ''Hand of Sacrifice'', ''Hand of Salvation'', ''Devotion Aura'',
          ''Holy Prism'', ''Judgment'', ''Hammer of Justice'', ''Turn Evil'', ''Divine Plea'']),
        (''Protection'',
         [''Shield of the Righteous'', (''Avenger'' @ [CHR 0x27] @ ''s Shield''),
          ''Consecration'', ''Hammer of the Righteous'', ''Judgment'', ''Holy Wrath'',
          ''Word of Glory'', ''Guardian of Ancient Kings'', ''Divine Protection'',
          ''Ardent Defender'', ''Divine Shield'', ''Blessing of Kings'', ''Blessing of Might'',
          ''Hand of Protection'', ''Hand of Freedom'', ''Hand of Sacrifice'',
          ''Hand of Salvation'', ''Devotion Aura'', (''Light'' @ [CHR 0x27] @ ''s Hammer''),
          ''Hammer of Justice'', ''Turn Evil'', ''Divine Plea'']),
        (''Retribution'',
         [(''Templar'' @ [CHR 0x27] @ ''s Verdict''), ''Crusader Strike'', ''Hammer of Wrath'',
          ''Judgment'', ''Exorcism'', ''Inquisition'', ''Execution Sentence'',
          ''Avenging Wrath'', ''Divine Shield'', ''Divine Protection'', ''Blessing of Kings'',
          ''Blessing of Might'', ''Hand of Protection'', ''Hand of Freedom'',
          ''Hand of Sacrifice'', ''Hand of Salvation'', ''Devotion Aura'', ''Hammer of Justice'',
          ''Turn Evil'', ''Divine Plea''])]),
     (''Warrior'',
       [(''Arms'',
         [''Mortal Strike'', ''Overpower'', ''Slam'', ''Execute'', ''Colossus Smash'', ''Rend'',
          ''Thunder Clap'', ''Sweeping Strikes'', ''Bladestorm'', ''Die by the Sword'',
          ''Battle Shout'', ''Commanding Shout'', ''Charge'', ''Heroic Leap'', ''Hamstring'',
          ''Rallying Cry'', ''Intervene'', ''Spell Reflection'', ''Shield Wall'', ''Pummel'',
          ''Intimidating Shout'', ''Berserker Rage'', ''Victory Rush'']),
        (''Fury'',
         [''Bloodthirst'', ''Wild Strike'', ''Raging Blow'', ''Execute'', ''Colossus Smash'',
          ''Thunder Clap'', ''Whirlwind'', ''Berserker Rage'', ''Recklessness'',
          ''Battle Shout'', ''Commanding Shout'', ''Charge'', ''Heroic Leap'', ''Hamstring'',
          ''Rallying Cry'', ''Intervene'', ''Spell Reflection'', ''Shield Wall'', ''Pummel'',
          ''Intimidating Shout'', ''Victory Rush'']),
        (''Protection'',
         [''Shield Slam'', ''Revenge'', ''Thunder Clap'', ''Devastate'', ''Shield Block'',
          ''Shield Barrier'', ''Demoralizing Shout'', ''Last Stand'', ''Shield Wall'',
          ''Battle Shout'', ''Commanding Shout'', ''Charge'', ''Heroic Leap'', ''Intervene'',
          ''Spell Reflection'', ''Pummel'', ''Intimidating Shout'', ''Berserker Rage'',
          ''Victory Rush''])]),
     (''Druid'',
       [(''Balance'',
         [''Wrath'', ''Starfire'', ''Starsurge'', ''Moonfire'', ''Sunfire'', ''Starfall'',
          ''Hurricane'', ''Wild Mushroom'', ''Wild Mushroom: Detonate'', ''Celestial Alignment'',
          ''Force of Nature'', ''Faerie Fire'', ''Barkskin'', ''Innervate'',
          ''Mark of the Wild'', ''Rebirth'', ''Tranquility'', ''Cyclone'', ''Entangling Roots'',
          ''Hibernate'', ''Solar Beam'', ''Typhoon'',
          (''Nature'' @ [CHR 0x27] @ ''s Swiftness''), ''Symbiosis'']),
        (''Feral'',
         [''Shred'', ''Rake'', ''Rip'', ''Ferocious Bite'', ''Savage Roar'',
          (''Tiger'' @ [CHR 0x27] @ ''s Fury''), ''Berserk'', ''Cat Form'', ''Maim'',
          ''Faerie Fire'', ''Barkskin'', ''Innervate'', ''Mark of the Wild'', ''Rebirth'',
          ''Tranquility'', ''Cyclone'', ''Entangling Roots'', ''Hibernate'', ''Skull Bash'',
          (''Nature'' @ [CHR 0x27] @ ''s Swiftness''), ''Symbiosis'']),
        (''Guardian'',
         [''Mangle'', ''Maul'', ''Lacerate'', ''Thrash'', ''Savage Defense'',
          ''Frenzied Regeneration'', ''Survival Instincts'', ''Bear Form'',
          ''Incarnation: Son of Ursoc'', ''Faerie Fire'', ''Barkskin'', ''Innervate'',
          ''Mark of the Wild'', ''Rebirth'', ''Tranquility'', ''Cyclone'', ''Entangling Roots'',
          ''Hibernate'', ''Skull Bash'', (''Nature'' @ [CHR 0x27] @ ''s Swiftness''),
          ''Symbiosis'']),
        (''Restoration'',
         [''Rejuvenation'', ''Healing Touch'', ''Regrowth'', ''Lifebloom'', ''Wild Growth'',
          ''Swiftmend'', ''Tranquility'', ''Wild Mushroom'', ''Wild Mushroom: Bloom'',
          (''Nature'' @ [CHR 0x27] @ ''s Swiftness''), ''Ironbark'', ''Innervate'', ''Barkskin'',
          ''Mark of the Wild'', ''Rebirth'', ''Cyclone'', ''Entangling Roots'', ''Hibernate'',
          ''Symbiosis''])]),
     (''Death Knight'',
       [(''Blood'',
         [''Death Strike'', ''Heart Strike'', ''Blood Boil'', ''Outbreak'', ''Soul Reaper'',
          ''Dancing Rune Weapon'', ''Rune Tap'', ''Vampiric Blood'', ''Icebound Fortitude'',
          ''Anti-Magic Shell'', ''Death Grip'', ''Mind Freeze'', ''Strangulate'',
          ''Army of the Dead'', ''Raise Dead'', ''Dark Command'',
          (''Death'' @ [CHR 0x27] @ ''s Advance''), ''Empower Rune Weapon'', ''Horn of Winter'']),
        (''Frost'',
         [''Obliterate'', ''Frost Strike'', ''Howling Blast'', ''Outbreak'', ''Soul Reaper'',
          ''Pillar of Frost'', ''Remorseless Winter'', ''Icebound Fortitude'',
          ''Anti-Magic Shell'', ''Death Grip'', ''Mind Freeze'', ''Strangulate'',
          ''Army of the Dead'', ''Raise Dead'', ''Dark Command'',
          (''Death'' @ [CHR 0x27] @ ''s Advance''), ''Empower Rune Weapon'', ''Horn of Winter'']),
        (''Unholy'',
         [''Scourge Strike'', ''Death Coil'', ''Festering Strike'', ''Outbreak'',
          ''Soul Reaper'', ''Dark Transformation'', ''Summon Gargoyle'', ''Icebound Fortitude'',
          ''Anti-Magic Shell'', ''Death Grip'', ''Mind Freeze'', ''Strangulate'',
          ''Army of the Dead'', ''Raise Dead'', ''Dark Command'',
          (''Death'' @ [CHR 0x27] @ ''s Advance''), ''Empower Rune Weapon'', ''Horn of Winter''])]),
     (''Hunter'',
       [(''Beast Mastery'',
         [''Arcane Shot'', ''Steady Shot'', ''Kill Command'', ''Focus Fire'', ''Bestial Wrath'',
          ''Dire Beast'', ''Multi-Shot'', ''Cobra Shot'', ''Rapid Fire'', ''Disengage'',
          ''Deterrence'', ''Concussive Shot'', ''Freezing Trap'', ''Snake Trap'',
          ''Explosive Trap'', ''Ice Trap'', ''Flare'', ''Feign Death'', ''Misdirection'',
          ''Tranquilizing Shot'', ''Counter Shot'', ''Aspect of the Hawk'',
          ''Aspect of the Cheetah'', ''Aspect of the Pack'']),
        (''Marksmanship'',
         [''Chimera Shot'', ''Steady Shot'', ''Aimed Shot'', ''Arcane Shot'',
          ''Murder of Crows'', ''Multi-Shot'', ''Rapid Fire'', ''Disengage'', ''Deterrence'',
          ''Concussive Shot'', ''Freezing Trap'', ''Snake Trap'', ''Explosive Trap'',
          ''Ice Trap'', ''Flare'', ''Feign Death'', ''Misdirection'', ''Tranquilizing Shot'',
          ''Counter Shot'', ''Aspect of the Hawk'', ''Aspect of the Cheetah'',
          ''Aspect of the Pack'']),
        (''Survival'',
         [''Explosive Shot'', ''Black Arrow'', ''Serpent Sting'', ''Arcane Shot'',
          ''Multi-Shot'', ''Cobra Shot'', ''Rapid Fire'', ''Disengage'', ''Deterrence'',
          ''Concussive Shot'', ''Freezing Trap'', ''Snake Trap'', ''Explosive Trap'',
          ''Ice Trap'', ''Flare'', ''Feign Death'', ''Misdirection'', ''Tranquilizing Shot'',
          ''Counter Shot'', ''Aspect of the Hawk'', ''Aspect of the Cheetah'',
          ''Aspect of the Pack''])]),
     (''Priest'',
       [(''Discipline'',
         [''Power Word: Shield'', ''Penance'', ''Prayer of Mending'', ''Flash Heal'',
          ''Greater Heal'', ''Prayer of Healing'', ''Power Word: Barrier'', ''Pain Suppression'',
          ''Spirit Shell'', ''Divine Aegis'', ''Inner Focus'', ''Archangel'', ''Dispel Magic'',
          ''Mass Dispel'', ''Purify'', ''Leap of Faith'', ''Fear Ward'', ''Fade'',
          ''Psychic Scream'', ''Power Word: Fortitude'', ''Divine Hymn'', ''Holy Fire'',
          ''Smite'']),
        (''Holy'',
         [''Heal'', ''Flash Heal'', ''Greater Heal'', ''Binding Heal'', ''Prayer of Mending'',
          ''Prayer of Healing'', ''Circle of Healing'', ''Holy Word: Sanctuary'',
          ''Divine Hymn'', ''Guardian Spirit'', ''Renew'', ''Chakra'', ''Dispel Magic'',
          ''Mass Dispel'', ''Purify'', ''Leap of Faith'', ''Fear Ward'', ''Fade'',
          ''Psychic Scream'', ''Power Word: Fortitude'', ''Holy Fire'', ''Smite'']),
        (''Shadow'',
         [''Mind Blast'', ''Mind Flay'', ''Shadow Word: Pain'', ''Vampiric Touch'',
          ''Devouring Plague'', ''Mind Spike'', ''Shadow Word: Death'', ''Shadowfiend'',
          ''Dispersion'', ''Psychic Horror'', ''Dispel Magic'', ''Mass Dispel'',
          ''Leap of Faith'', ''Fear Ward'', ''Fade'', ''Psychic Scream'',
          ''Power Word: Fortitude'', ''Shadow Word: Insanity''])]),
     (''Rogue'',
       [(''Assassination'',
         [''Mutilate'', ''Envenom'', ''Dispatch'', ''Rupture'', ''Garrote'', ''Vendetta'',
          ''Fan of Knives'', ''Crimson Tempest'', ''Slice and Dice'', ''Recuperate'', ''Sprint'',
          ''Vanish'', ''Cloak of Shadows'', ''Evasion'', ''Combat Readiness'', ''Shadow Step'',
          ''Feint'', ''Kick'', ''Blind'', ''Tricks of the Trade'', ''Kidney Shot'',
          ''Cheap Shot'', ''Sap'', ''Distract'', ''Stealth'']),
        (''Combat'',
         [''Sinister Strike'', ''Eviscerate'', ''Revealing Strike'', ''Slice and Dice'',
          ''Adrenaline Rush'', ''Killing Spree'', ''Blade Flurry'', ''Fan of Knives'',
          ''Crimson Tempest'', ''Recuperate'', ''Sprint'', ''Vanish'', ''Cloak of Shadows'',
          ''Evasion'', ''Combat Readiness'', ''Feint'', ''Kick'', ''Blind'',
          ''Tricks of the Trade'', ''Kidney Shot'', ''Cheap Shot'', ''Sap'', ''Distract'',
          ''Stealth'']),
        (''Subtlety'',
         [''Backstab'', ''Hemorrhage'', ''Eviscerate'', ''Rupture'', ''Shadow Dance'',
          ''Premeditation'', ''Ambush'', ''Fan of Knives'', ''Crimson Tempest'',
          ''Slice and Dice'', ''Recuperate'', ''Sprint'', ''Vanish'', ''Cloak of Shadows'',
          ''Evasion'', ''Combat Readiness'', ''Shadow Step'', ''Feint'', ''Kick'', ''Blind'',
          ''Tricks of the Trade'', ''Kidney Shot'', ''Cheap Shot'', ''Sap'', ''Distract'',
          ''Stealth''])]),
     (''Shaman'',
       [(''Elemental'',
         [''Lightning Bolt'', ''Chain Lightning'', ''Earth Shock'', ''Flame Shock'',
          ''Lava Burst'', ''Earthquake'', ''Elemental Blast'', ''Thunderstorm'', ''Ascendance'',
          (''Spiritwalker'' @ [CHR 0x27] @ ''s Grace''), ''Fire Elemental Totem'',
          ''Earth Elemental Totem'', ''Healing Stream Totem'', ''Healing Tide Totem'',
          ''Grounding Totem'', ''Capacitor Totem'', ''Wind Shear'', ''Ghost Wolf'',
          ''Water Walking'', ''Water Breathing'']),
        (''Enhancement'',
         [''Stormstrike'', ''Lava Lash'', ''Earth Shock'', ''Flame Shock'', ''Lightning Bolt'',
          ''Searing Totem'', ''Feral Spirit'', ''Ascendance'', ''Fire Elemental Totem'',
          ''Earth Elemental Totem'', ''Healing Stream Totem'', ''Healing Tide Totem'',
          ''Grounding Totem'', ''Capacitor Totem'', ''Wind Shear'', ''Ghost Wolf'',
          ''Water Walking'', ''Water Breathing'']),
        (''Restoration'',
         [''Healing Wave'', ''Healing Surge'', ''Greater Healing Wave'', ''Chain Heal'',
          ''Riptide'', ''Healing Rain'', ''Healing Stream Totem'', ''Healing Tide Totem'',
          ''Spirit Link Totem'', ''Ascendance'', (''Spiritwalker'' @ [CHR 0x27] @ ''s Grace''),
          ''Earth Shield'', ''Water Shield'', ''Grounding Totem'', ''Capacitor Totem'',
          ''Wind Shear'', ''Ghost Wolf'', ''Water Walking'', ''Water Breathing''])]),
     (''Warlock'',
       [(''Affliction'',
         [''Agony'', ''Corruption'', ''Unstable Affliction'', ''Malefic Grasp'', ''Haunt'',
          ''Drain Soul'', ''Seed of Corruption'', ''Soulburn'', ''Dark Soul: Misery'',
          ''Life Tap'', ''Fear'', ''Howl of Terror'', ''Mortal Coil'',
          ''Demonic Circle: Teleport'', ''Unending Resolve'', ''Dark Bargain'', ''Soulshatter'',
          ''Fel Armor'', ''Health Funnel'', ''Create Healthstone'', ''Summon Doomguard'',
          ''Summon Infernal'', ''Summon Felhunter'', ''Summon Voidwalker'', ''Summon Imp'',
          ''Summon Succubus'']),
        (''Demonology'',
         [''Shadow Bolt'', ''Soul Fire'', (''Hand of Gul'' @ [CHR 0x27] @ ''dan''),
          ''Metamorphosis'', ''Touch of Chaos'', ''Doom'', ''Hellfire'', ''Chaos Wave'',
          ''Dark Soul: Knowledge'', ''Life Tap'', ''Fear'', ''Howl of Terror'', ''Mortal Coil'',
          ''Demonic Circle: Teleport'', ''Unending Resolve'', ''Dark Bargain'', ''Soulshatter'',
          ''Fel Armor'', ''Health Funnel'', ''Create Healthstone'', ''Summon Doomguard'',
          ''Summon Infernal'', ''Summon Felhunter'', ''Summon Voidwalker'', ''Summon Imp'',
          ''Summon Felguard'']),
        (''Destruction'',
         [''Incinerate'', ''Immolate'', ''Conflagrate'', ''Chaos Bolt'', ''Shadowburn'',
          ''Rain of Fire'', ''Havoc'', ''Dark Soul: Instability'', ''Life Tap'', ''Fear'',
          ''Howl of Terror'', ''Mortal Coil'', ''Demonic Circle: Teleport'',
          ''Unending Resolve'', ''Dark Bargain'', ''Soulshatter'', ''Fel Armor'',
          ''Health Funnel'', ''Create Healthstone'', ''Summon Doomguard'', ''Summon Infernal'',
          ''Summon Felhunter'', ''Summon Voidwalker'', ''Summon Imp'', ''Summon Succubus''])]),
     (''Monk'',
       [(''Brewmaster'',
         [''Keg Smash'', ''Blackout Kick'', ''Tiger Palm'', ''Breath of Fire'', ''Guard'',
          ''Purifying Brew'', ''Fortifying Brew'', ''Zen Sphere'', ''Chi Wave'', ''Leg Sweep'',
          ''Rushing Jade Wind'', ''Summon Black Ox Statue'', ''Spear Hand Strike'',
          ''Elusive Brew'', ''Expel Harm'', ''Detox'', ''Roll'', ''Flying Serpent Kick'',
          ''Spinning Crane Kick'', ''Touch of Death'', ''Paralysis'', ''Legacy of the Emperor'',
          ''Legacy of the White Tiger'']),
        (''Windwalker'',
         [''Tiger Palm'', ''Blackout Kick'', ''Rising Sun Kick'', ''Fists of Fury'',
          ''Spinning Crane Kick'', ''Touch of Death'', ''Storm, Earth, and Fire'',
          ''Energizing Brew'', (''Tiger'' @ [CHR 0x27] @ ''s Lust''), ''Chi Wave'',
          ''Zen Sphere'', ''Leg Sweep'', ''Rushing Jade Wind'', ''Spear Hand Strike'',
          ''Expel Harm'', ''Detox'', ''Roll'', ''Flying Serpent Kick'', ''Touch of Karma'',
          ''Paralysis'', ''Legacy of the Emperor'', ''Legacy of the White Tiger'']),
        (''Mistweaver'',
         [''Soothing Mist'', ''Enveloping Mist'', ''Surging Mist'', ''Renewing Mist'',
          ''Chi Wave'', ''Zen Sphere'', ''Chi Burst'', ''Life Cocoon'', ''Revival'',
          ''Thunder Focus Tea'', ''Spinning Crane Kick'', ''Detox'', ''Roll'',
          ''Flying Serpent Kick'', ''Touch of Death'', ''Paralysis'', ''Legacy of the Emperor'',
          ''Legacy of the White Tiger''])])]"

definition get_spec_id :: "string \<Rightarrow> string \<Rightarrow> int option" where
  "get_spec_id class_name spec_name =
     (case map_of SPEC_IDS class_name of
        None \<Rightarrow> None
      | Some specs \<Rightarrow> map_of specs spec_name)"

definition get_spells_for_spec :: "string \<Rightarrow> string \<Rightarrow> string list" where
  "get_spells_for_spec class_name spec_name =
     (case map_of SPELL_DATA class_name of
        None \<Rightarrow> []
      | Some specs \<Rightarrow> (case map_of specs spec_name of None \<Rightarrow> [] | Some names \<Rightarrow> sort names))"

section \<open>core/rotation.py\<close>

text \<open>
  The two dataclasses and the class \<open>Rotation\<close>. The field \<open>id\<close> of \<open>SpellEntry\<close> is
  \<open>spell_id\<close> here and the field \<open>name\<close> of \<open>RotationMetadata\<close> is \<open>meta_name\<close>, the
  other fields keep their names. Fields hold values of their annotated types; a
  timestamp (a Python float, the value of \<open>time.time()\<close>) is a real number, which the
  code only stores and copies. The list \<open>spells\<close> holds the entries by value: the
  entries of a Rotation are distinct objects, each created by one \<open>add_spell\<close>.

  An operation that mutates the Rotation takes it and returns it updated, together
  with what the Python returns or raises. \<open>now\<close> is the value \<open>time.time()\<close> returns
  during the call.
\<close>

record SpellEntry =
  name :: string
  condition :: string
  priority :: int
  enabled :: bool
  "notes" :: string
  spell_id :: "int option"

record RotationMetadata =
  meta_name :: string
  class_name :: string
  spec_name :: string
  author :: string
  version :: string
  description :: string
  created_at :: real
  modified_at :: real
  tags :: "string list"

record Rotation =
  metadata :: RotationMetadata
  spells :: "SpellEntry list"
  spec_id :: "int option"

text \<open>
  \<open>Rotation.__init__\<close> with \<open>_validate_spec\<close>; \<open>t1\<close> and \<open>t2\<close> are its two clock
  readings. \<open>not self.spec_id\<close> holds for \<open>None\<close> and for \<open>0\<close>.
\<close>

definition rotation_init :: "string \<Rightarrow> string \<Rightarrow> real \<Rightarrow> real \<Rightarrow> exn + Rotation" where
  "rotation_init cls spc t1 t2 =
     (let r = \<lparr>metadata =
                 \<lparr>meta_name = cls @ '' '' @ spc @ '' Rotation'', class_name = cls, spec_name = spc,
                  author = '''', version = ''1.0'', description = '''',
                  created_at = t1, modified_at = t2, tags = []\<rparr>,
               spells = [], spec_id = get_spec_id cls spc\<rparr>
      in if spec_id r = None \<or> spec_id r = Some 0
         then Inl (ValueError (''Invalid class/spec combination: '' @ cls @ ''/'' @ spc))
         else Inr r)"

text \<open>\<open>_sort_spells\<close>: \<open>list.sort\<close> with a key is a stable sort, as \<open>sort_key\<close> is.\<close>

definition sort_spells :: "SpellEntry list \<Rightarrow> SpellEntry list" where
  "sort_spells xs = sort_key priority xs"

definition touch :: "Rotation \<Rightarrow> real \<Rightarrow> Rotation" where
  "touch r now = r\<lparr>metadata := (metadata r)\<lparr>modified_at := now\<rparr>\<rparr>"

text \<open>
  \<open>add_spell\<close>. The Python returns the new entry, an object that is also in the list;
  the model returns the position of that object in the sorted list. To follow the
  object through the sort, the entries are sorted as pairs with a mark that is \<open>True\<close>
  for the new one only.
\<close>

definition add_spell :: "Rotation \<Rightarrow> string \<Rightarrow> string \<Rightarrow> int option \<Rightarrow> real \<Rightarrow> Rotation \<times> (exn + nat)" where
  "add_spell r spell_name cond prio now =
     (if spell_name \<notin> set (get_spells_for_spec (class_name (metadata r)) (spec_name (metadata r)))
      then (r, Inl (ValueError (''Spell '' @ spell_name @ '' not found for '' @
                      class_name (metadata r) @ ''/'' @ spec_name (metadata r))))
      else if \<not> fst (validate_condition cond)
      then (r, Inl (ValueError (''Invalid condition: '' @ snd (validate_condition cond))))
      else
        (let p = (case prio of None \<Rightarrow> int (length (spells r)) + 1 | Some q \<Rightarrow> q);
             shifted = (case prio of
                          None \<Rightarrow> spells r
                        | Some q \<Rightarrow> map (\<lambda>s. if priority s \<ge> q then s\<lparr>priority := priority s + 1\<rparr> else s)
                                     (spells r));
             entry = \<lparr>name = spell_name, condition = cond, priority = p, enabled = True,
                      notes = '''', spell_id = None\<rparr>;
             marked = sort_key (\<lambda>m. priority (snd m)) (map (Pair False) shifted @ [(True, entry)])
         in (touch (r\<lparr>spells := map snd marked\<rparr>) now,
             Inr (length (takeWhile (\<lambda>m. \<not> fst m) marked)))))"

text \<open>The position of the first entry that satisfies \<open>P\<close>, as the loops search it.\<close>

fun first_index :: "('a \<Rightarrow> bool) \<Rightarrow> 'a list \<Rightarrow> nat option" where
  "first_index P [] = None"
| "first_index P (x # xs) = (if P x then Some 0 else map_option Suc (first_index P xs))"

definition remove_spell :: "Rotation \<Rightarrow> int \<Rightarrow> real \<Rightarrow> Rotation \<times> bool" where
  "remove_spell r p now =
     (case first_index (\<lambda>s. priority s = p) (spells r) of
        None \<Rightarrow> (r, False)
      | Some i \<Rightarrow>
          (let popped = take i (spells r) @ drop (Suc i) (spells r);
               shifted = map (\<lambda>s. if priority s > p then s\<lparr>priority := priority s - 1\<rparr> else s) popped
           in (touch (r\<lparr>spells := shifted\<rparr>) now, True)))"

definition move_spell :: "Rotation \<Rightarrow> int \<Rightarrow> int \<Rightarrow> real \<Rightarrow> Rotation \<times> bool" where
  "move_spell r from_priority to_priority now =
     (if from_priority = to_priority then (r, True)
      else
        (case first_index (\<lambda>s. priority s = from_priority) (spells r) of
           None \<Rightarrow> (r, False)
         | Some i \<Rightarrow>
             (let shifted =
                    (if from_priority < to_priority
                     then map (\<lambda>s. if from_priority < priority s \<and> priority s \<le> to_priority
                                    then s\<lparr>priority := priority s - 1\<rparr> else s) (spells r)
                     else map (\<lambda>s. if to_priority \<le> priority s \<and> priority s < from_priority
                                    then s\<lparr>priority := priority s + 1\<rparr> else s) (spells r));
                  moved = shifted[i := (shifted ! i)\<lparr>priority := to_priority\<rparr>]
              in (touch (r\<lparr>spells := sort_spells moved\<rparr>) now, True))))"

text \<open>
  The keyword arguments of \<open>update_spell\<close>: a dictionary with at most one value for
  a field of \<open>SpellEntry\<close>. The keyword \<open>priority\<close> is the parameter of the method
  itself and never reaches \<open>kwargs\<close>.
\<close>

record spell_kwargs =
  kw_name :: "string option"
  kw_condition :: "string option"
  kw_enabled :: "bool option"
  kw_notes :: "string option"
  kw_id :: "int option option"

definition set_fields :: "spell_kwargs \<Rightarrow> SpellEntry \<Rightarrow> SpellEntry" where
  "set_fields kw s =
     \<lparr>name = (case kw_name kw of None \<Rightarrow> name s | Some v \<Rightarrow> v),
      condition = (case kw_condition kw of None \<Rightarrow> condition s | Some v \<Rightarrow> v),
      priority = priority s,
      enabled = (case kw_enabled kw of None \<Rightarrow> enabled s | Some v \<Rightarrow> v),
      notes = (case kw_notes kw of None \<Rightarrow> notes s | Some v \<Rightarrow> v),
      spell_id = (case kw_id kw of None \<Rightarrow> spell_id s | Some v \<Rightarrow> v)\<rparr>"

definition update_spell :: "Rotation \<Rightarrow> int \<Rightarrow> spell_kwargs \<Rightarrow> real \<Rightarrow> Rotation \<times> (exn + bool)" where
  "update_spell r p kw now =
     (case first_index (\<lambda>s. priority s = p) (spells r) of
        None \<Rightarrow> (r, Inr False)
      | Some i \<Rightarrow>
          (case kw_condition kw of
             Some c \<Rightarrow>
               if \<not> fst (validate_condition c)
               then (r, Inl (ValueError (''Invalid condition: '' @ snd (validate_condition c))))
               else (touch (r\<lparr>spells := (spells r)[i := set_fields kw (spells r ! i)]\<rparr>) now, Inr True)
           | None \<Rightarrow> (touch (r\<lparr>spells := (spells r)[i := set_fields kw (spells r ! i)]\<rparr>) now, Inr True)))"

section \<open>core/exporter.py: the JSON adapter\<close>

text \<open>
  \<open>to_json\<close> builds the dictionary \<open>data\<close> and returns \<open>json.dumps(data)\<close>;
  \<open>from_json\<close> starts with \<open>json.loads(content)\<close>. Both library calls are outside the
  repository. The model works on the document itself, a value of \<open>json\<close>: \<open>to_json\<close>
  is the document the exporter serializes, and \<open>from_json\<close> takes the document the
  parser returns, which for a text written by \<open>json.dumps\<close> is the document that was
  serialized. An object is the list of its keys and values, with distinct keys.
\<close>

datatype json =
    JNull
  | JBool bool
  | JInt int
  | JFloat real
  | JString string
  | JArray "json list"
  | JObject "(string \<times> json) list"

definition spell_to_json :: "SpellEntry \<Rightarrow> json" where
  "spell_to_json s =
     JObject [(''name'', JString (name s)),
              (''condition'', JString (condition s)),
              (''priority'', JInt (priority s)),
              (''enabled'', JBool (enabled s)),
              (''notes'', JString (notes s))]"

definition to_json :: "Rotation \<Rightarrow> json" where
  "to_json rotation =
     JObject
       [(''format_version'', JString ''1.0''),
        (''metadata'',
           JObject [(''name'', JString (meta_name (metadata rotation))),
                    (''class_name'', JString (class_name (metadata rotation))),
                    (''spec_name'', JString (spec_name (metadata rotation))),
                    (''author'', JString (author (metadata rotation))),
                    (''version'', JString (version (metadata rotation))),
                    (''description'', JString (description (metadata rotation))),
                    (''created_at'', JFloat (created_at (metadata rotation))),
                    (''modified_at'', JFloat (modified_at (metadata rotation))),
                    (''tags'', JArray (map JString (tags (metadata rotation))))]),
        (''spec_id'', (case spec_id rotation of None \<Rightarrow> JNull | Some i \<Rightarrow> JInt i)),
        (''spells'', JArray (map spell_to_json (spells rotation)))]"

text \<open>
  \<open>d[key]\<close> on a parsed document: KeyError for a missing key of an object, TypeError
  for a value that is not an object (the text of that message is not modelled).
\<close>

definition subscript :: "json \<Rightarrow> string \<Rightarrow> exn + json" where
  "subscript d key =
     (case d of
        JObject kvs \<Rightarrow> (case map_of kvs key of None \<Rightarrow> Inl (KeyError key) | Some v \<Rightarrow> Inr v)
      | _ \<Rightarrow> Inl (TypeError ''value is not subscriptable by a string''))"

text \<open>
  The records hold values of the annotated field types. Where the Python would go on
  with a value of another type in a field, the model stops with \<open>IllTyped\<close>: such a
  document is outside the model, and nothing is said about it.
\<close>

definition as_string :: "string \<Rightarrow> json \<Rightarrow> exn + string" where
  "as_string field v = (case v of JString s \<Rightarrow> Inr s | _ \<Rightarrow> Inl (IllTyped field))"

definition as_real :: "string \<Rightarrow> json \<Rightarrow> exn + real" where
  "as_real field v =
     (case v of JFloat x \<Rightarrow> Inr x | JInt i \<Rightarrow> Inr (of_int i) | _ \<Rightarrow> Inl (IllTyped field))"

definition as_bool :: "string \<Rightarrow> json \<Rightarrow> exn + bool" where
  "as_bool field v = (case v of JBool b \<Rightarrow> Inr b | _ \<Rightarrow> Inl (IllTyped field))"

definition as_priority :: "json \<Rightarrow> exn + int option" where
  "as_priority v =
     (case v of JInt i \<Rightarrow> Inr (Some i) | JNull \<Rightarrow> Inr None | _ \<Rightarrow> Inl (IllTyped ''priority''))"

fun as_string_list :: "string \<Rightarrow> json list \<Rightarrow> exn + string list" where
  "as_string_list field [] = Inr []"
| "as_string_list field (v # vs) =
     exn_bind (as_string field v) (\<lambda>s. exn_bind (as_string_list field vs) (\<lambda>ss. Inr (s # ss)))"

definition as_tags :: "json \<Rightarrow> exn + string list" where
  "as_tags v = (case v of JArray vs \<Rightarrow> as_string_list ''tags'' vs | _ \<Rightarrow> Inl (IllTyped ''tags''))"

text \<open>
  The class and the specialization are looked up in \<open>SPEC_IDS\<close>, whose keys are
  strings: a value that is no string is found in no dictionary, and the constructor
  raises (TypeError for an unhashable list or object).
\<close>

definition as_catalogue_key :: "json \<Rightarrow> exn + string" where
  "as_catalogue_key v =
     (case v of
        JString s \<Rightarrow> Inr s
      | JArray vs \<Rightarrow> Inl (TypeError ''unhashable type'')
      | JObject kvs \<Rightarrow> Inl (TypeError ''unhashable type'')
      | _ \<Rightarrow> Inl (ValueError ''Invalid class/spec combination''))"

text \<open>
  The check of \<open>format_version\<close>: \<open>"format_version" not in data\<close> is a key test on an
  object, a membership test on a list and a substring test on a string, and raises on
  the other values.
\<close>

definition check_format_version :: "json \<Rightarrow> exn + unit" where
  "check_format_version data =
     (case data of
        JObject kvs \<Rightarrow>
          (if map_of kvs ''format_version'' = None \<or> map_of kvs ''format_version'' \<noteq> Some (JString ''1.0'')
           then Inl (ValueError ''Unsupported JSON format version'') else Inr ())
      | JArray vs \<Rightarrow>
          (if JString ''format_version'' \<notin> set vs
           then Inl (ValueError ''Unsupported JSON format version'')
           else Inl (TypeError ''value is not subscriptable by a string''))
      | JString s \<Rightarrow>
          (if \<not> py_in ''format_version'' s
           then Inl (ValueError ''Unsupported JSON format version'')
           else Inl (TypeError ''value is not subscriptable by a string''))
      | _ \<Rightarrow> Inl (TypeError ''value is not iterable''))"

text \<open>What \<open>for spell_data in data["spells"]\<close> iterates over.\<close>

definition iterate :: "json \<Rightarrow> exn + json list" where
  "iterate v =
     (case v of
        JArray vs \<Rightarrow> Inr vs
      | JObject kvs \<Rightarrow> Inr (map (\<lambda>kv. JString (fst kv)) kvs)
      | JString s \<Rightarrow> Inr (map (\<lambda>c. JString [c]) s)
      | _ \<Rightarrow> Inl (TypeError ''value is not iterable''))"

text \<open>
  The loop over the spells. \<open>clk\<close> gives the clock readings of the import by their
  number, \<open>i\<close> is the number of the next reading. \<open>add_spell\<close> returns the entry it
  created, and the two assignments after the call change that entry in the list.
  A name that is no string is in no catalogue and makes \<open>add_spell\<close> raise.
\<close>

fun from_json_spells :: "(nat \<Rightarrow> real) \<Rightarrow> nat \<Rightarrow> Rotation \<Rightarrow> json list \<Rightarrow> exn + Rotation" where
  "from_json_spells clk i rotation [] = Inr rotation"
| "from_json_spells clk i rotation (spell_data # rest) =
     exn_bind (subscript spell_data ''name'') (\<lambda>jname.
     exn_bind (subscript spell_data ''condition'') (\<lambda>jcond.
     exn_bind (subscript spell_data ''priority'') (\<lambda>jprio.
     exn_bind (case jname of JString s \<Rightarrow> Inr s | _ \<Rightarrow> Inl (ValueError ''Spell not found'')) (\<lambda>nm.
     exn_bind (as_string ''condition'' jcond) (\<lambda>cond.
     exn_bind (as_priority jprio) (\<lambda>prio.
       case add_spell rotation nm cond prio (clk i) of
         (rotation1, Inl e) \<Rightarrow> Inl e
       | (rotation1, Inr k) \<Rightarrow>
           exn_bind (subscript spell_data ''enabled'') (\<lambda>jen.
           exn_bind (as_bool ''enabled'' jen) (\<lambda>en.
           exn_bind (subscript spell_data ''notes'') (\<lambda>jnotes.
           exn_bind (as_string ''notes'' jnotes) (\<lambda>nt.
             from_json_spells clk (Suc i)
               (rotation1\<lparr>spells := (spells rotation1)
                   [k := (spells rotation1 ! k)\<lparr>enabled := en, notes := nt\<rparr>]\<rparr>)
               rest))))))))))"

definition from_json_body :: "(nat \<Rightarrow> real) \<Rightarrow> json \<Rightarrow> exn + Rotation" where
  "from_json_body clk data =
     exn_bind (check_format_version data) (\<lambda>u.
     exn_bind (subscript data ''metadata'') (\<lambda>md.
     exn_bind (subscript md ''class_name'') (\<lambda>jcls.
     exn_bind (subscript md ''spec_name'') (\<lambda>jspc.
     exn_bind (as_catalogue_key jcls) (\<lambda>cls.
     exn_bind (as_catalogue_key jspc) (\<lambda>spc.
     exn_bind (rotation_init cls spc (clk 0) (clk 1)) (\<lambda>r0.
     exn_bind (subscript md ''name'') (\<lambda>jname.
     exn_bind (as_string ''name'' jname) (\<lambda>nm.
     exn_bind (subscript md ''author'') (\<lambda>jauthor.
     exn_bind (as_string ''author'' jauthor) (\<lambda>au.
     exn_bind (subscript md ''version'') (\<lambda>jversion.
     exn_bind (as_string ''version'' jversion) (\<lambda>ve.
     exn_bind (subscript md ''description'') (\<lambda>jdescription.
     exn_bind (as_string ''description'' jdescription) (\<lambda>de.
     exn_bind (subscript md ''created_at'') (\<lambda>jcreated.
     exn_bind (as_real ''created_at'' jcreated) (\<lambda>cr.
     exn_bind (subscript md ''modified_at'') (\<lambda>jmodified.
     exn_bind (as_real ''modified_at'' jmodified) (\<lambda>mo.
     exn_bind (subscript md ''tags'') (\<lambda>jtags.
     exn_bind (as_tags jtags) (\<lambda>tg.
     exn_bind (subscript data ''spells'') (\<lambda>jspells.
     exn_bind (iterate jspells) (\<lambda>items.
       from_json_spells clk 2
         (r0\<lparr>metadata := (metadata r0)\<lparr>meta_name := nm, author := au, version := ve,
                 description := de, created_at := cr, modified_at := mo, tags := tg\<rparr>\<rparr>)
         items)))))))))))))))))))))))"

text \<open>
  The handler of the importers: every exception becomes a ValueError that carries the
  name of the format and the text of the cause.
\<close>

definition reraise :: "string \<Rightarrow> exn + 'a \<Rightarrow> exn + 'a" where
  "reraise prefix res =
     (case res of
        Inr x \<Rightarrow> Inr x
      | Inl (IllTyped m) \<Rightarrow> Inl (IllTyped m)
      | Inl e \<Rightarrow> Inl (ValueError (prefix @ exn_str e)))"

definition from_json :: "(nat \<Rightarrow> real) \<Rightarrow> json \<Rightarrow> exn + Rotation" where
  "from_json clk data = reraise ''Error parsing JSON: '' (from_json_body clk data)"

section \<open>The registration format: RotationImporter.from_soe and Rotation.from_soe_format\<close>

text \<open>
  The names bound at module level in \<open>core/rotation.py\<close> and in \<open>core/exporter.py\<close>:
  their imports and their classes. A name a function reads that is neither local nor
  bound in its module (nor a builtin, which \<open>re\<close> is not) raises NameError.
\<close>

definition rotation_module_names :: "string list" where
  "rotation_module_names =
     [''Dict'', ''List'', ''Optional'', ''Any'', ''dataclass'', ''asdict'', ''json'', ''time'',
      ''ConditionValidator'', ''spell_data'', ''SpellEntry'', ''RotationMetadata'', ''Rotation'',
      ''RotationManager'']"

definition exporter_module_names :: "string list" where
  "exporter_module_names =
     [''Dict'', ''List'', ''Optional'', ''Tuple'', ''Any'', ''json'', ''ET'', ''datetime'', ''re'',
      ''Rotation'', ''SpellEntry'', ''spell_data'', ''RotationExporter'', ''RotationImporter'',
      ''RotationConverter'']"

definition load_global :: "string list \<Rightarrow> string \<Rightarrow> exn + unit" where
  "load_global module_names ident =
     (if ident \<in> set module_names then Inr () else Inl (NameError ident))"

text \<open>
  \<open>re.search(r'register\((\d+)', text)\<close>: group 1 of the leftmost match, the longest
  run of digits after the first \<open>register(\<close> that is followed by a digit.
\<close>

fun search_register :: "string \<Rightarrow> string option" where
  "search_register [] = None"
| "search_register (c # cs) =
     (if startswith (c # cs) ''register('' \<and> takeWhile py_isdigit (drop 9 (c # cs)) \<noteq> []
      then Some (takeWhile py_isdigit (drop 9 (c # cs)))
      else search_register cs)"

text \<open>\<open>int(digits)\<close> for a non-empty string of decimal digits.\<close>

definition int_of_digits :: "string \<Rightarrow> int" where
  "int_of_digits ds = foldl (\<lambda>n c. 10 * n + (int (of_char c) - 48)) 0 ds"

text \<open>\<open>str(int(digits))\<close>: the digits without leading zeros.\<close>

definition str_of_digits :: "string \<Rightarrow> string" where
  "str_of_digits ds =
     (if dropWhile (\<lambda>c. c = CHR ''0'') ds = [] then ''0'' else dropWhile (\<lambda>c. c = CHR ''0'') ds)"

text \<open>
  The two nested loops over \<open>SPEC_IDS\<close> that look a class and a specialization up by
  the identifier: the first specialization of the first class that carries it.
\<close>

fun find_spec :: "int \<Rightarrow> (string \<times> int) list \<Rightarrow> string option" where
  "find_spec wanted [] = None"
| "find_spec wanted ((s, sid) # specs) = (if sid = wanted then Some s else find_spec wanted specs)"

fun find_class_spec :: "int \<Rightarrow> (string \<times> (string \<times> int) list) list \<Rightarrow> (string \<times> string) option" where
  "find_class_spec wanted [] = None"
| "find_class_spec wanted ((c, specs) # classes) =
     (case find_spec wanted specs of
        Some s \<Rightarrow> Some (c, s)
      | None \<Rightarrow> find_class_spec wanted classes)"

text \<open>
  \<open>re.search(r'--\s*KEY\s*(.+)', text)\<close> for the keys \<open>Author:\<close>, \<open>Version:\<close> and
  \<open>Description:\<close>. After the key, \<open>\s*\<close> takes the whole run of whitespace and gives
  characters back from its end until \<open>(.+)\<close>, which takes the characters up to the next
  line feed, matches at least one character.
\<close>

definition dot_plus :: "string \<Rightarrow> string" where
  "dot_plus s = takeWhile (\<lambda>c. c \<noteq> CHR 0x0A) s"

fun give_back :: "string \<Rightarrow> nat \<Rightarrow> string option" where
  "give_back s 0 = (if dot_plus s = [] then None else Some (dot_plus s))"
| "give_back s (Suc k) =
     (if dot_plus (drop (Suc k) s) \<noteq> [] then Some (dot_plus (drop (Suc k) s)) else give_back s k)"

definition header_match :: "string \<Rightarrow> string \<Rightarrow> string option" where
  "header_match key s =
     (if startswith s ''--'' then
        (let r = dropWhile py_isspace (drop 2 s) in
         if startswith r key
         then give_back (drop (length key) r) (length (takeWhile py_isspace (drop (length key) r)))
         else None)
      else None)"

fun search_header :: "string \<Rightarrow> string \<Rightarrow> string option" where
  "search_header key [] = None"
| "search_header key (c # cs) =
     (case header_match key (c # cs) of Some g \<Rightarrow> Some g | None \<Rightarrow> search_header key cs)"

text \<open>
  The pattern of a spell tuple, \<open>\{\s*"([^"]+)",\s*"([^"]+)"\s*\}\<close>. \<open>quoted\<close> matches
  \<open>"([^"]+)"\<close> at the head of a string and returns the group and the text after the
  closing quote. Every repetition of the pattern is followed by a character outside
  its class, so the longest run is the only one that can match.
\<close>

definition quoted :: "string \<Rightarrow> (string \<times> string) option" where
  "quoted s =
     (case s of
        [] \<Rightarrow> None
      | c # cs \<Rightarrow>
          if c \<noteq> CHR 0x22 then None
          else (let g = takeWhile (\<lambda>x. x \<noteq> CHR 0x22) cs; r = dropWhile (\<lambda>x. x \<noteq> CHR 0x22) cs
                in if g = [] \<or> r = [] then None else Some (g, tl r)))"

definition spell_match :: "string \<Rightarrow> ((string \<times> string) \<times> string) option" where
  "spell_match s =
     (case s of
        [] \<Rightarrow> None
      | c # cs \<Rightarrow>
          if c \<noteq> CHR ''{'' then None
          else (case quoted (dropWhile py_isspace cs) of
                  None \<Rightarrow> None
                | Some (spell_name, r1) \<Rightarrow>
                    (case r1 of
                       [] \<Rightarrow> None
                     | d # r2 \<Rightarrow>
                         if d \<noteq> CHR '','' then None
                         else (case quoted (dropWhile py_isspace r2) of
                                 None \<Rightarrow> None
                               | Some (cond, r3) \<Rightarrow>
                                   (case dropWhile py_isspace r3 of
                                      [] \<Rightarrow> None
                                    | e # r4 \<Rightarrow> if e = CHR ''}'' then Some ((spell_name, cond), r4)
                                               else None)))))"

text \<open>
  \<open>re.finditer\<close>: the matches from left to right, each search starting where the
  match before it ended.
\<close>

function finditer_spells :: "string \<Rightarrow> (string \<times> string) list" where
  "finditer_spells [] = []"
| "finditer_spells (c # cs) =
     (case spell_match (c # cs) of
        Some (groups, r) \<Rightarrow> groups # finditer_spells r
      | None \<Rightarrow> finditer_spells cs)"
  by pat_completeness auto
termination
proof (relation "measure length")
  show "wf (measure length)" by simp
next
  fix c :: char and cs :: string and m :: "(string \<times> string) \<times> string"
    and groups :: "string \<times> string" and r :: string
  assume a: "spell_match (c # cs) = Some m" and m: "(groups, r) = m"
  have q: "length r' < length t" if "quoted t = Some (g, r')" for t g r'
  proof -
    from that obtain x xs where t: "t = x # xs" and ne: "dropWhile (\<lambda>x. x \<noteq> CHR 0x22) xs \<noteq> []"
      and r': "r' = tl (dropWhile (\<lambda>x. x \<noteq> CHR 0x22) xs)"
      by (auto simp: quoted_def Let_def split: list.splits if_splits)
    have "length (dropWhile (\<lambda>x. x \<noteq> CHR 0x22) xs) \<le> length xs" by (rule length_dropWhile_le)
    with ne show ?thesis by (simp add: t r')
  qed
  have d: "length (dropWhile py_isspace t) \<le> length t" for t
    by (rule length_dropWhile_le)
  from a m obtain n r1 x r2 cnd r3 e
    where q1: "quoted (dropWhile py_isspace cs) = Some (n, r1)" and r1: "r1 = x # r2"
      and q2: "quoted (dropWhile py_isspace r2) = Some (cnd, r3)"
      and r3: "dropWhile py_isspace r3 = e # r"
    by (auto simp: spell_match_def split: option.splits list.splits if_splits)
  from q [OF q1] d [of cs] have "length r1 < length cs + 1" by simp
  moreover from q [OF q2] d [of r2] have "length r3 < length r2 + 1" by simp
  moreover from r3 d [of r3] have "length r < length r3" by simp
  ultimately have "length r < length (c # cs)" by (simp add: r1)
  then show "(r, c # cs) \<in> measure length" by simp
next
  fix c :: char and cs :: string
  show "(cs, c # cs) \<in> measure length" by simp
qed

text \<open>
  The loop \<open>for i, match in enumerate(spell_matches, 1)\<close>: the \<open>i\<close>-th tuple is added
  at priority \<open>i\<close>; an exception of \<open>add_spell\<close> ends the loop. The \<open>i\<close>-th call reads the
  clock for the \<open>i + 1\<close>-st time after the two readings of the constructor.
\<close>

fun add_matches :: "(nat \<Rightarrow> real) \<Rightarrow> nat \<Rightarrow> Rotation \<Rightarrow> (string \<times> string) list \<Rightarrow> exn + Rotation" where
  "add_matches clk i rotation [] = Inr rotation"
| "add_matches clk i rotation ((spell_name, cond) # rest) =
     (case add_spell rotation spell_name cond (Some (int i)) (clk (Suc i)) of
        (rotation1, Inl e) \<Rightarrow> Inl e
      | (rotation1, Inr k) \<Rightarrow> add_matches clk (Suc i) rotation1 rest)"

text \<open>The part the two importers share: from the identifier to the new Rotation.\<close>

definition rotation_of_spec_id :: "(nat \<Rightarrow> real) \<Rightarrow> string \<Rightarrow> exn + Rotation" where
  "rotation_of_spec_id clk digits =
     (let wanted = int_of_digits digits in
      case find_class_spec wanted SPEC_IDS of
        None \<Rightarrow> Inl (ValueError (''Invalid spec ID: '' @ str_of_digits digits))
      | Some (cls, spc) \<Rightarrow>
          if cls = [] \<or> spc = [] then Inl (ValueError (''Invalid spec ID: '' @ str_of_digits digits))
          else rotation_init cls spc (clk 0) (clk 1))"

text \<open>\<open>RotationImporter.from_soe\<close> of \<open>core/exporter.py\<close>.\<close>

definition set_header :: "Rotation \<Rightarrow> string \<Rightarrow> Rotation" where
  "set_header rotation content =
     (let r1 = (case search_header ''Author:'' content of
                  None \<Rightarrow> rotation
                | Some g \<Rightarrow> rotation\<lparr>metadata := (metadata rotation)\<lparr>author := py_strip g\<rparr>\<rparr>);
          r2 = (case search_header ''Version:'' content of
                  None \<Rightarrow> r1
                | Some g \<Rightarrow> r1\<lparr>metadata := (metadata r1)\<lparr>version := py_strip g\<rparr>\<rparr>);
          r3 = (case search_header ''Description:'' content of
                  None \<Rightarrow> r2
                | Some g \<Rightarrow> r2\<lparr>metadata := (metadata r2)\<lparr>description := py_strip g\<rparr>\<rparr>)
      in r3)"

definition from_soe_body :: "(nat \<Rightarrow> real) \<Rightarrow> string \<Rightarrow> exn + Rotation" where
  "from_soe_body clk content =
     exn_bind (load_global exporter_module_names ''re'') (\<lambda>u.
       case search_register content of
         None \<Rightarrow> Inl (ValueError ''Could not find spec ID in SOE code'')
       | Some digits \<Rightarrow>
           exn_bind (rotation_of_spec_id clk digits) (\<lambda>rotation.
             add_matches clk 1 (set_header rotation content) (finditer_spells content)))"

definition from_soe :: "(nat \<Rightarrow> real) \<Rightarrow> string \<Rightarrow> exn + Rotation" where
  "from_soe clk content = reraise ''Error parsing SOE Engine code: '' (from_soe_body clk content)"

text \<open>
  \<open>Rotation.from_soe_format\<close> of \<open>core/rotation.py\<close>: the same steps without the
  header comments, in a module that does not import \<open>re\<close>.
\<close>

definition from_soe_format_body :: "(nat \<Rightarrow> real) \<Rightarrow> string \<Rightarrow> exn + Rotation" where
  "from_soe_format_body clk soe_code =
     exn_bind (load_global rotation_module_names ''re'') (\<lambda>u.
       case search_register soe_code of
         None \<Rightarrow> Inl (ValueError ''Could not find spec ID in code'')
       | Some digits \<Rightarrow>
           exn_bind (rotation_of_spec_id clk digits) (\<lambda>rotation.
             add_matches clk 1 rotation (finditer_spells soe_code)))"

definition from_soe_format :: "(nat \<Rightarrow> real) \<Rightarrow> string \<Rightarrow> exn + Rotation" where
  "from_soe_format clk soe_code =
     reraise ''Error parsing SOE Engine code: '' (from_soe_format_body clk soe_code)"

section \<open>Vocabulary of the properties\<close>

text \<open>
  The priority invariant of the specification: the priorities of the entries, read in
  list order, are exactly \<open>1, 2, ..., N\<close> for \<open>N\<close> entries.
\<close>

definition dense_priorities :: "Rotation \<Rightarrow> bool" where
  "dense_priorities r = (map priority (spells r) = [1..int (length (spells r))])"

text \<open>
  A sequence of calls of \<open>add_spell\<close>, \<open>remove_spell\<close> and \<open>move_spell\<close>, each with the
  clock reading of its call. \<open>call\<close> is the Rotation after one call, or the exception
  the call raises; \<open>run_calls\<close> stops at the first exception.
\<close>

datatype rotation_call = AddSpell string string "int option" | RemoveSpell int | MoveSpell int int

fun call :: "Rotation \<Rightarrow> rotation_call \<Rightarrow> real \<Rightarrow> exn + Rotation" where
  "call r (AddSpell n c prio) now = (case snd (add_spell r n c prio now) of
                                      Inl e \<Rightarrow> Inl e
                                    | Inr k \<Rightarrow> Inr (fst (add_spell r n c prio now)))"
| "call r (RemoveSpell p) now = Inr (fst (remove_spell r p now))"
| "call r (MoveSpell f t) now = Inr (fst (move_spell r f t now))"

fun run_calls :: "Rotation \<Rightarrow> (rotation_call \<times> real) list \<Rightarrow> exn + Rotation" where
  "run_calls r [] = Inr r"
| "run_calls r ((c, now) # cs) =
     (case call r c now of Inl e \<Rightarrow> Inl e | Inr r' \<Rightarrow> run_calls r' cs)"

text \<open>
  The position a call names: an explicit priority of \<open>add_spell\<close> between 1 and one
  more than the number of entries, and the target of a \<open>move_spell\<close> that finds its
  entry between 1 and the number of entries, both counted when the call is made.
\<close>

fun target_in_range :: "Rotation \<Rightarrow> rotation_call \<Rightarrow> bool" where
  "target_in_range r (AddSpell n c None) = True"
| "target_in_range r (AddSpell n c (Some q)) = (1 \<le> q \<and> q \<le> int (length (spells r)) + 1)"
| "target_in_range r (RemoveSpell p) = True"
| "target_in_range r (MoveSpell f t) =
     (f \<notin> priority ` set (spells r) \<or> (1 \<le> t \<and> t \<le> int (length (spells r))))"

fun calls_in_range :: "Rotation \<Rightarrow> (rotation_call \<times> real) list \<Rightarrow> bool" where
  "calls_in_range r [] = True"
| "calls_in_range r ((c, now) # cs) =
     (target_in_range r c \<and>
      (case call r c now of Inl e \<Rightarrow> True | Inr r' \<Rightarrow> calls_in_range r' cs))"

text \<open>Concrete Rotations and calls, on which the theorems are evaluated.\<close>

definition priest_holy :: Rotation where
  "priest_holy =
     \<lparr>metadata =
        \<lparr>meta_name = ''Priest Holy Rotation'', class_name = ''Priest'', spec_name = ''Holy'',
         author = '''', version = ''1.0'', description = '''',
         created_at = 100, modified_at = 100, tags = []\<rparr>,
      spells = [], spec_id = Some 257\<rparr>"

definition example_calls :: "(rotation_call \<times> real) list" where
  "example_calls =
     [(AddSpell ''Heal'' ''true'' None, 101),
      (AddSpell ''Renew'' ''player.moving'' (Some 1), 102),
      (AddSpell ''Smite'' ''true'' (Some 3), 103),
      (MoveSpell 3 1, 104),
      (RemoveSpell 2, 105),
      (MoveSpell 1 2, 106)]"

definition one_spell :: Rotation where
  "one_spell = fst (add_spell priest_holy ''Heal'' ''true'' None 101)"

definition bad_condition_kwargs :: spell_kwargs where
  "bad_condition_kwargs =
     \<lparr>kw_name = Some ''Renew'', kw_condition = Some ''player.health >30'',
      kw_enabled = None, kw_notes = None, kw_id = None\<rparr>"

text \<open>The clock readings of an import.\<close>

definition import_clock :: "nat \<Rightarrow> real" where
  "import_clock i = 200 + real i"

text \<open>
  A text in the registration format, laid out as the exporter writes it: header lines,
  the line that opens the call of \<open>register\<close> with the identifier, one line for each
  spell tuple, and the closing line.
\<close>

definition spell_tuple :: "string \<Rightarrow> string \<Rightarrow> string" where
  "spell_tuple n c =
     ''    { '' @ [CHR 0x22] @ n @ [CHR 0x22] @ '', '' @ [CHR 0x22] @ c @ [CHR 0x22] @ '' },''"

definition registration_text :: "string \<Rightarrow> string \<Rightarrow> string list \<Rightarrow> string" where
  "registration_text header digits tuples =
     header @ [CHR 0x0A] @ ''SOEEngine.rotation.register('' @ digits @ '', {'' @ [CHR 0x0A] @
     concat (map (\<lambda>t. t @ [CHR 0x0A]) tuples) @ ''})''"

definition example_header :: string where
  "example_header =
     ''-- Priest Holy Rotation'' @ [CHR 0x0A] @
     ''-- Author: someone'' @ [CHR 0x0A] @
     ''-- Version: 1.0'' @ [CHR 0x0A]"

definition soe_example :: string where
  "soe_example =
     registration_text example_header ''257''
       [spell_tuple ''Heal'' ''true'', spell_tuple ''Renew'' ''player.moving'']"


text \<open>
  A Rotation with two entries of priority 2: the first added at the explicit priority
  2, the second without a priority and so at the number of entries plus one.
\<close>

definition duplicate_priorities :: Rotation where
  "duplicate_priorities =
     fst (add_spell (fst (add_spell priest_holy ''Heal'' ''true'' (Some 2) 101)) ''Renew'' ''true'' None 102)"

text \<open>
  The Rotations the importers accept back: the identifier is the one of the catalogue
  for the class and the specialization, every entry has a name of the catalogue, a
  condition the validator accepts and no \<open>id\<close> (the formats do not write it), and the
  priorities increase strictly along the list.
\<close>

definition importable :: "Rotation \<Rightarrow> bool" where
  "importable r =
     (spec_id r = get_spec_id (class_name (metadata r)) (spec_name (metadata r)) \<and>
      spec_id r \<noteq> None \<and> spec_id r \<noteq> Some 0 \<and>
      list_all (\<lambda>s. name s \<in> set (get_spells_for_spec (class_name (metadata r)) (spec_name (metadata r))) \<and>
                    fst (validate_condition (condition s)) \<and> spell_id s = None) (spells r) \<and>
      sorted_wrt (<) (map priority (spells r)))"

section \<open>Properties of the condition validator\<close>

subsection \<open>No check of the validator raises\<close>

lemma split_acc_nonempty: "split_acc sep acc s \<noteq> []"
  by (induction sep acc s rule: split_acc.induct) auto

lemma py_index_split_first: "\<exists>b. py_index (py_split s sep) 0 = Inr b"
  using split_acc_nonempty [of sep "[]" s] by (simp add: py_index_def py_split_def)

lemma extract_base_returns: "\<exists>b. extract_base component = Inr b"
proof -
  have step: "\<exists>b. (if P then py_index (py_split s sep) 0 else Inr s) = Inr b" for P s sep
    using py_index_split_first [of s sep] by auto
  obtain b0 where b0: "(if py_in ''('' component then py_index (py_split component ''('') 0 else Inr component) = Inr b0"
    using step by blast
  obtain b1 where b1: "(if py_in ''>'' component then py_index (py_split b0 ''>'') 0 else Inr b0) = Inr b1"
    using step by blast
  obtain b2 where b2: "(if py_in ''<'' component then py_index (py_split b1 ''<'') 0 else Inr b1) = Inr b2"
    using step by blast
  obtain b3 where b3: "(if py_in ''=='' component then py_index (py_split b2 ''=='') 0 else Inr b2) = Inr b3"
    using step by blast
  obtain b4 where b4: "(if py_in ''!='' component then py_index (py_split b3 ''!='') 0 else Inr b3) = Inr b4"
    using step by blast
  show ?thesis
    unfolding extract_base_def exn_bind_def by (simp only: b0 b1 b2 b3 b4 sum.case) blast
qed

lemma component_ok_returns: "\<exists>b. component_ok component = Inr b"
proof -
  let ?c = "if startswith component ''!'' then drop 1 component else component"
  obtain base where base: "extract_base ?c = Inr base"
    using extract_base_returns by blast
  show ?thesis
    unfolding component_ok_def Let_def base exn_bind_def
    by (auto simp: py_index_def split: option.splits)
qed

lemma components_loop_returns: "\<exists>b. components_loop components = Inr b"
proof (induction components)
  case Nil
  show ?case by auto
next
  case (Cons c cs)
  obtain ok where "component_ok c = Inr ok" using component_ok_returns by blast
  with Cons show ?case by (cases ok) (auto simp: exn_bind_def)
qed

lemma parentheses_loop_returns: "\<exists>b. parentheses_loop s stack = Inr b"
  by (induction s stack rule: parentheses_loop.induct) (auto simp: py_pop_def)

lemma validate_body_returns:
  "validate_body c = Inr (True, '''') \<or>
   validate_body c = Inr (False, ''Invalid condition syntax'') \<or>
   validate_body c = Inr (False, ''Invalid operator usage'') \<or>
   validate_body c = Inr (False, ''Mismatched parentheses'') \<or>
   validate_body c = Inr (False, ''Invalid condition components'')"
proof -
  obtain balanced where p: "validate_parentheses c = Inr balanced"
    unfolding validate_parentheses_def using parentheses_loop_returns by blast
  obtain known where k: "validate_components c = Inr known"
    unfolding validate_components_def using components_loop_returns by blast
  show ?thesis
  proof (cases "check_basic_syntax c")
    case False
    then show ?thesis by (simp add: validate_body_def)
  next
    case syn: True
    show ?thesis
    proof (cases "validate_operators c")
      case False
      with syn show ?thesis by (simp add: validate_body_def)
    next
      case ops: True
      show ?thesis
      proof (cases balanced)
        case False
        with syn ops p show ?thesis by (simp add: validate_body_def exn_bind_def)
      next
        case bal: True
        show ?thesis
        proof (cases known)
          case False
          with syn ops p k bal show ?thesis by (simp add: validate_body_def exn_bind_def)
        next
          case True
          with syn ops p k bal show ?thesis by (simp add: validate_body_def exn_bind_def)
        qed
      qed
    qed
  qed
qed

text \<open>
  Claim C6. For every input string, \<open>validate_condition\<close> returns a pair of a boolean
  and a reason and raises nothing: the block under \<open>try\<close> always returns a result (no
  indexing or \<open>pop\<close> in it goes out of range), so the value is one of the five structured
  results; and the handler turns any exception of that block into the result
  \<open>(False, "Validation error: ...")\<close>.
\<close>

theorem validate_condition_never_raises:
  "(\<exists>result. validate_body (py_strip s) = Inr result) \<and>
   (validate_condition s = (True, '''') \<or>
    validate_condition s = (False, ''Invalid condition syntax'') \<or>
    validate_condition s = (False, ''Invalid operator usage'') \<or>
    validate_condition s = (False, ''Mismatched parentheses'') \<or>
    validate_condition s = (False, ''Invalid condition components'')) \<and>
   catch_validation (Inl e) = (False, ''Validation error: '' @ exn_str e)"
proof -
  have first: "\<exists>result. validate_body (py_strip s) = Inr result"
    using validate_body_returns [of "py_strip s"] by blast
  have unfold: "validate_condition s = (True, '''') \<or>
      validate_condition s = catch_validation (validate_body (py_strip s))"
    unfolding validate_condition_def by (simp only: split: if_split) blast
  have second: "validate_condition s = (True, '''') \<or>
    validate_condition s = (False, ''Invalid condition syntax'') \<or>
    validate_condition s = (False, ''Invalid operator usage'') \<or>
    validate_condition s = (False, ''Mismatched parentheses'') \<or>
    validate_condition s = (False, ''Invalid condition components'')"
    using unfold validate_body_returns [of "py_strip s"]
    by (elim disjE) (simp_all only: catch_validation.simps simp_thms)
  have third: "catch_validation (Inl e) = (False, ''Validation error: '' @ exn_str e)"
    by (simp only: catch_validation.simps)
  from first second third show ?thesis by (intro conjI)
qed

subsection \<open>The rejected inputs of the specification\<close>

text \<open>
  Claim C9 names the component check as the reason for rejecting
  \<open>"player.health > 30 &&"\<close>. The checks run in order and stop at the first failure: the
  operator check already fails, since \<open>&&\<close> ends the stripped string and is not
  followed by a space, and the reason returned is the one of the operator check.
\<close>

theorem dangling_operator_counterexample:
  "validate_operators ''player.health > 30 &&'' = False \<and>
   validate_condition ''player.health > 30 &&'' = (False, ''Invalid operator usage'') \<and>
   validate_condition ''player.health > 30 &&'' \<noteq> (False, ''Invalid condition components'')"
  by code_simp

text \<open>
  Claim C9, as amended. The four inputs are rejected: \<open>"player.health >30"\<close> by the
  operator check (operator spacing); \<open>"player.health > 30 &&"\<close> by the operator check as
  well (\<open>" && "\<close> does not occur in it); \<open>"(player.moving"\<close> by the parenthesis
  check; \<open>"foo.bar == 1"\<close> by the component check, its category \<open>foo\<close> not being a
  key of \<open>BASIC_CONDITIONS\<close>.
\<close>

theorem rejected_inputs:
  "validate_condition ''player.health >30'' = (False, ''Invalid operator usage'') \<and>
   validate_operators ''player.health >30'' = False \<and>
   validate_condition ''player.health > 30 &&'' = (False, ''Invalid operator usage'') \<and>
   py_in '' && '' ''player.health > 30 &&'' = False \<and>
   validate_condition ''(player.moving'' = (False, ''Mismatched parentheses'') \<and>
   validate_parentheses ''(player.moving'' = Inr False \<and>
   validate_condition ''foo.bar == 1'' = (False, ''Invalid condition components'') \<and>
   extract_base ''foo.bar == 1'' = Inr ''foo.bar '' \<and>
   py_index (py_split ''foo.bar '' ''.'') 0 = Inr ''foo'' \<and>
   map_of BASIC_CONDITIONS ''foo'' = None"
  by code_simp

subsection \<open>Comparison clauses\<close>

text \<open>
  Claim C4 says that a recognized path, a comparison operator and a numeric literal,
  separated by single spaces, form a valid condition. The validator rejects
  \<open>"player.health > 30"\<close>, although \<open>health\<close> is a key of the \<open>player\<close> category:
  the base cut at the operator keeps the space before it, so the subcategory looked up
  is \<open>"health "\<close>. It rejects every clause with \<open>>=\<close>, \<open><=\<close> or \<open>!=\<close> in the operator
  check: the loop over \<open>OPERATORS\<close> also finds \<open>>\<close>, \<open><\<close> or \<open>!\<close> in the string and
  asks for that one-character operator between spaces.
\<close>

theorem comparison_clause_rejected:
  "''health'' \<in> set (the (map_of BASIC_CONDITIONS ''player'')) \<and>
   validate_condition ''player.health > 30'' = (False, ''Invalid condition components'') \<and>
   extract_base ''player.health > 30'' = Inr ''player.health '' \<and>
   validate_condition ''player.health >= 30'' = (False, ''Invalid operator usage'') \<and>
   validate_condition ''player.health <= 30'' = (False, ''Invalid operator usage'') \<and>
   validate_condition ''player.health != 30'' = (False, ''Invalid operator usage'')"
  by code_simp

subsection \<open>Conditions built by the ConditionBuilder\<close>

text \<open>
  Claim C3 says that every condition the builder produces from its offered vocabulary
  validates. The builder's output for the pair \<open>player\<close>, \<open>health\<close> with operator
  \<open>>\<close> and value \<open>30\<close> is rejected; so is the class category \<open>Druid\<close> with its key
  \<open>solar\<close>, which the builder offers after \<open>set_class\<close> and the validator does not
  look up; and so is a negation, which the builder appends only after a clause (never
  after \<open>&&\<close> or \<open>||\<close>), where the component check reads it as part of a path.
\<close>

theorem builder_condition_rejected:
  "get_condition (add_condition_part builder_init ''player'' ''health'' ''>'' ''30'') = ''player.health > 30'' \<and>
   builder_validate (add_condition_part builder_init ''player'' ''health'' ''>'' ''30'')
     = (False, ''Invalid condition components'') \<and>
   ''Druid'' \<in> set (get_available_categories (set_class builder_init ''Druid'')) \<and>
   ''solar'' \<in> set (get_conditions_for_category (set_class builder_init ''Druid'') ''Druid'') \<and>
   builder_validate (add_condition_part (set_class builder_init ''Druid'') ''Druid'' ''solar'' '''' '''')
     = (False, ''Invalid condition components'') \<and>
   get_condition (add_condition_part (add_not_operator
       (add_logical_operator (add_condition_part builder_init ''player'' ''moving'' '''' '''') ''&&''))
       ''target'' ''exists'' '''' '''') = ''player.moving && target.exists'' \<and>
   get_condition (add_condition_part (add_not_operator
       (add_condition_part builder_init ''player'' ''moving'' '''' '''')) ''target'' ''exists'' '''' '''')
     = ''player.moving ! target.exists'' \<and>
   builder_validate (add_condition_part (add_not_operator
       (add_condition_part builder_init ''player'' ''moving'' '''' '''')) ''target'' ''exists'' '''' '''')
     = (False, ''Invalid condition components'')"
  by code_simp

section \<open>Properties of the Rotation\<close>

subsection \<open>Searching an entry by priority\<close>


lemma first_index_Some: "first_index P xs = Some i \<Longrightarrow> i < length xs \<and> P (xs ! i)"
  by (induction xs arbitrary: i) (auto split: if_splits)

subsection \<open>The entry add_spell returns\<close>

text \<open>
  Sorting the marked pairs sorts the entries as \<open>_sort_spells\<close> does, and the position
  that \<open>add_spell\<close> returns is the one of the entry it created.
\<close>

lemma insort_marked:
  "map snd (insort_key (\<lambda>m. f (snd m)) m ms) = insort_key f (snd m) (map snd ms)"
  by (induction ms) simp_all

lemma sort_marked:
  "map snd (sort_key (\<lambda>m. f (snd m)) ms) = sort_key f (map snd ms)"
  by (induction ms) (simp_all add: insort_marked)

lemma takeWhile_stops:
  "\<exists>m \<in> set ms. \<not> P m \<Longrightarrow> length (takeWhile P ms) < length ms"
  by (induction ms) auto

lemma add_spell_returns_entry:
  assumes "n \<in> set (get_spells_for_spec (class_name (metadata r)) (spec_name (metadata r)))"
    and "fst (validate_condition c)"
  shows "\<exists>k. snd (add_spell r n c prio now) = Inr k \<and>
           k < length (spells (fst (add_spell r n c prio now))) \<and>
           spells (fst (add_spell r n c prio now)) ! k =
             \<lparr>name = n, condition = c,
              priority = (case prio of None \<Rightarrow> int (length (spells r)) + 1 | Some q \<Rightarrow> q),
              enabled = True, notes = '''', spell_id = None\<rparr> \<and>
           spells (fst (add_spell r n c prio now)) =
             sort_spells
               ((case prio of
                   None \<Rightarrow> spells r
                 | Some q \<Rightarrow> map (\<lambda>s. if priority s \<ge> q then s\<lparr>priority := priority s + 1\<rparr> else s)
                              (spells r)) @
                [\<lparr>name = n, condition = c,
                  priority = (case prio of None \<Rightarrow> int (length (spells r)) + 1 | Some q \<Rightarrow> q),
                  enabled = True, notes = '''', spell_id = None\<rparr>])"
proof -
  define shifted where "shifted = (case prio of
                   None \<Rightarrow> spells r
                 | Some q \<Rightarrow> map (\<lambda>s. if priority s \<ge> q then s\<lparr>priority := priority s + 1\<rparr> else s)
                              (spells r))"
  define entry where "entry = \<lparr>name = n, condition = c,
              priority = (case prio of None \<Rightarrow> int (length (spells r)) + 1 | Some q \<Rightarrow> q),
              enabled = True, notes = '''', spell_id = None\<rparr>"
  define marked where "marked = sort_key (\<lambda>m. priority (snd m)) (map (Pair False) shifted @ [(True, entry)])"
  define k where "k = length (takeWhile (\<lambda>m. \<not> fst m) marked)"
  have res: "add_spell r n c prio now = (touch (r\<lparr>spells := map snd marked\<rparr>) now, Inr k)"
    using assms by (simp add: add_spell_def Let_def shifted_def entry_def marked_def k_def)
  have set_marked: "set marked = Pair False ` set shifted \<union> {(True, entry)}"
    by (simp add: marked_def)
  then have "\<exists>m \<in> set marked. \<not> \<not> fst m" by simp
  then have klt: "k < length marked"
    unfolding k_def by (rule takeWhile_stops)
  then have "\<not> \<not> fst (marked ! k)"
    unfolding k_def by (rule nth_length_takeWhile)
  moreover have "marked ! k \<in> set marked" using klt by simp
  ultimately have at: "marked ! k = (True, entry)"
    using set_marked by auto
  have sp: "spells (fst (add_spell r n c prio now)) = map snd marked"
    by (simp add: res touch_def)
  have ms: "map snd marked = sort_spells (shifted @ [entry])"
    by (simp add: marked_def sort_marked sort_spells_def comp_def)
  have a: "snd (add_spell r n c prio now) = Inr k" by (simp add: res)
  have b: "k < length (spells (fst (add_spell r n c prio now)))" using klt by (simp add: sp)
  have c: "spells (fst (add_spell r n c prio now)) ! k = entry" using klt at by (simp add: sp)
  have d: "spells (fst (add_spell r n c prio now)) = sort_spells (shifted @ [entry])"
    by (simp only: sp ms)
  from a b c d show ?thesis
    unfolding shifted_def entry_def by (intro exI [of _ k] conjI)
qed

subsection \<open>The priority invariant\<close>

text \<open>
  A list whose keys are distinct and fill \<open>1..N\<close> is sorted into the list with keys
  \<open>1, ..., N\<close>.
\<close>

lemma dense_after_sort:
  assumes "distinct (map f xs)" and "f ` set xs = {1..int (length xs)}"
  shows "map f (sort_key f xs) = [1..int (length xs)]"
proof (rule sorted_distinct_set_unique)
  show "sorted (map f (sort_key f xs))" by simp
  show "distinct (map f (sort_key f xs))"
    using assms(1) by (simp add: distinct_map)
  show "sorted [1..int (length xs)]" by simp
  show "distinct [1..int (length xs)]" by simp
  show "set (map f (sort_key f xs)) = set [1..int (length xs)]"
    using assms(2) by simp
qed

lemma dense_nth: "dense_priorities r \<Longrightarrow> i < length (spells r) \<Longrightarrow> priority (spells r ! i) = int i + 1"
proof -
  assume d: "dense_priorities r" and i: "i < length (spells r)"
  have "priority (spells r ! i) = map priority (spells r) ! i" using i by simp
  also have "\<dots> = [1..int (length (spells r))] ! i" using d by (simp add: dense_priorities_def)
  also have "\<dots> = 1 + int i" using i by (simp add: nth_upto)
  finally show ?thesis by simp
qed

text \<open>
  \<open>add_spell\<close> keeps the invariant when the priority is omitted or lies between 1 and
  \<open>N + 1\<close>: the shifted priorities and the new one are distinct and fill \<open>1..N + 1\<close>.
\<close>

lemma add_spell_dense:
  assumes d: "dense_priorities r"
    and a: "add_spell r n c prio now = (r', Inr k)"
    and rng: "\<And>q. prio = Some q \<Longrightarrow> 1 \<le> q \<and> q \<le> int (length (spells r)) + 1"
  shows "dense_priorities r'"
proof -
  let ?N = "int (length (spells r))"
  define p where "p = (case prio of None \<Rightarrow> ?N + 1 | Some q \<Rightarrow> q)"
  define sh where "sh = (\<lambda>x::int. if x \<ge> p then x + 1 else x)"
  define shifted where "shifted = (case prio of
                          None \<Rightarrow> spells r
                        | Some q \<Rightarrow> map (\<lambda>s. if priority s \<ge> q then s\<lparr>priority := priority s + 1\<rparr> else s)
                                     (spells r))"
  define entry where "entry = \<lparr>name = n, condition = c, priority = p, enabled = True,
                      notes = '''', spell_id = None\<rparr>"
  define pairs where "pairs = map (Pair False) shifted @ [(True, entry)]"
  let ?g = "\<lambda>m::bool \<times> SpellEntry. priority (snd m)"
  have prng: "1 \<le> p \<and> p \<le> ?N + 1"
    using rng by (cases prio) (auto simp: p_def)
  have ps: "map priority (spells r) = [1..?N]"
    using d by (simp add: dense_priorities_def)
  have "map priority shifted = map sh (map priority (spells r))"
  proof (cases prio)
    case None
    have "map sh [1..?N] = [1..?N]"
      by (rule map_idI) (auto simp: sh_def p_def None)
    then show ?thesis by (simp add: shifted_def None ps)
  next
    case (Some q)
    then show ?thesis by (simp add: shifted_def sh_def p_def)
  qed
  then have msh: "map priority shifted = map sh [1..?N]" by (simp add: ps)
  have len: "length pairs = Suc (length (spells r))"
    by (cases prio) (simp_all add: pairs_def shifted_def)
  have mg: "map ?g pairs = map sh [1..?N] @ [p]"
    by (simp add: pairs_def comp_def msh [symmetric] entry_def)
  have dist: "distinct (map ?g pairs)"
    unfolding mg by (auto simp: distinct_map inj_on_def sh_def split: if_splits)
  have img: "?g ` set pairs = {1..int (length pairs)}"
  proof -
    have "?g ` set pairs = set (map ?g pairs)" by simp
    also have "\<dots> = sh ` {1..?N} \<union> {p}" unfolding mg by simp
    also have "\<dots> = {1..?N + 1}"
    proof (rule set_eqI)
      fix x
      show "x \<in> sh ` {1..?N} \<union> {p} \<longleftrightarrow> x \<in> {1..?N + 1}"
      proof
        assume "x \<in> sh ` {1..?N} \<union> {p}"
        then show "x \<in> {1..?N + 1}" using prng by (auto simp: sh_def split: if_splits)
      next
        assume x: "x \<in> {1..?N + 1}"
        consider "x < p" | "x = p" | "x > p" by linarith
        then show "x \<in> sh ` {1..?N} \<union> {p}"
        proof cases
          case 1
          then have "sh x = x" "x \<in> {1..?N}" using x prng by (auto simp: sh_def)
          then show ?thesis by (metis UnI1 imageI)
        next
          case 2
          then show ?thesis by simp
        next
          case 3
          then have "sh (x - 1) = x" "x - 1 \<in> {1..?N}" using x prng by (auto simp: sh_def)
          then show ?thesis by (metis UnI1 imageI)
        qed
      qed
    qed
    finally show ?thesis by (simp add: len)
  qed
  have valid: "n \<in> set (get_spells_for_spec (class_name (metadata r)) (spec_name (metadata r)))"
      "fst (validate_condition c)"
    using a by (auto simp: add_spell_def split: if_splits)
  have r': "spells r' = map snd (sort_key ?g pairs)"
    using a valid
    by (auto simp add: add_spell_def Let_def touch_def pairs_def shifted_def entry_def p_def)
  have "map priority (spells r') = map ?g (sort_key ?g pairs)"
    by (simp add: r' comp_def)
  also have "\<dots> = [1..int (length pairs)]"
    by (rule dense_after_sort [OF dist img])
  finally show ?thesis
    by (simp add: dense_priorities_def r')
qed

text \<open>\<open>remove_spell\<close> keeps the invariant for every argument: it closes the gap it opens.\<close>

lemma remove_spell_dense:
  assumes d: "dense_priorities r"
  shows "dense_priorities (fst (remove_spell r p now))"
proof (cases "first_index (\<lambda>s. priority s = p) (spells r)")
  case None
  then show ?thesis using d by (simp add: remove_spell_def)
next
  case (Some i)
  let ?xs = "spells r"
  define dec where "dec = (\<lambda>s::SpellEntry. if priority s > p then s\<lparr>priority := priority s - 1\<rparr> else s)"
  define popped where "popped = take i ?xs @ drop (Suc i) ?xs"
  from first_index_Some [OF Some] have i: "i < length ?xs" and pi: "priority (?xs ! i) = p"
    by simp_all
  from dense_nth [OF d i] pi have p: "p = int i + 1" by simp
  have res: "spells (fst (remove_spell r p now)) = map dec popped"
    by (simp add: remove_spell_def Some Let_def touch_def dec_def popped_def)
  have len: "length popped = length ?xs - 1" using i by (simp add: popped_def)
  have "map priority (map dec popped) = [1..int (length ?xs - 1)]"
  proof (rule nth_equalityI)
    show "length (map priority (map dec popped)) = length [1..int (length ?xs - 1)]"
      using len by simp
  next
    fix k
    assume "k < length (map priority (map dec popped))"
    then have k: "k < length ?xs - 1" using len by simp
    then have kp: "k < length popped" using len by simp
    have "priority (dec (popped ! k)) = int k + 1"
    proof (cases "k < i")
      case True
      then have "popped ! k = ?xs ! k" using i by (simp add: popped_def nth_append)
      moreover have "priority (?xs ! k) = int k + 1" using dense_nth [OF d] True i by simp
      ultimately show ?thesis using True p by (simp add: dec_def)
    next
      case False
      then have "popped ! k = ?xs ! (Suc k)" using i k by (simp add: popped_def nth_append min_def)
      moreover have "priority (?xs ! (Suc k)) = int (Suc k) + 1" using dense_nth [OF d] k by simp
      ultimately show ?thesis using False p by (simp add: dec_def)
    qed
    moreover have "map priority (map dec popped) ! k = priority (dec (popped ! k))"
      using kp by simp
    moreover have "[1..int (length ?xs - 1)] ! k = int k + 1"
      using k by (simp add: nth_upto)
    ultimately show "map priority (map dec popped) ! k = [1..int (length ?xs - 1)] ! k"
      by simp
  qed
  then show ?thesis
    using len by (simp add: dense_priorities_def res)
qed

text \<open>
  \<open>move_spell\<close> keeps the invariant when it finds no entry, or when the target lies
  between 1 and \<open>N\<close>: the priorities are then permuted.
\<close>

lemma move_spell_dense:
  assumes d: "dense_priorities r"
    and rng: "f \<in> priority ` set (spells r) \<Longrightarrow> 1 \<le> t \<and> t \<le> int (length (spells r))"
  shows "dense_priorities (fst (move_spell r f t now))"
proof (cases "f = t")
  case True
  then show ?thesis using d by (simp add: move_spell_def)
next
  case ne: False
  show ?thesis
  proof (cases "first_index (\<lambda>s. priority s = f) (spells r)")
    case None
    then show ?thesis using d ne by (simp add: move_spell_def)
  next
    case (Some i)
    let ?xs = "spells r"
    let ?N = "int (length ?xs)"
    from first_index_Some [OF Some] have i: "i < length ?xs" and pi: "priority (?xs ! i) = f"
      by simp_all
    from dense_nth [OF d i] pi have f: "f = int i + 1" by simp
    have "f \<in> priority ` set ?xs" using i pi by (metis imageI nth_mem)
    with rng have t: "1 \<le> t" "t \<le> ?N" by simp_all
    have frng: "1 \<le> f" "f \<le> ?N" using f i by simp_all
    define g where "g = (\<lambda>x::int. if f < t then (if f < x \<and> x \<le> t then x - 1 else x)
                                  else (if t \<le> x \<and> x < f then x + 1 else x))"
    define h where "h = (\<lambda>x. if x = f then t else g x)"
    define shifted where "shifted =
                    (if f < t
                     then map (\<lambda>s. if f < priority s \<and> priority s \<le> t
                                    then s\<lparr>priority := priority s - 1\<rparr> else s) ?xs
                     else map (\<lambda>s. if t \<le> priority s \<and> priority s < f
                                    then s\<lparr>priority := priority s + 1\<rparr> else s) ?xs)"
    define moved where "moved = shifted[i := (shifted ! i)\<lparr>priority := t\<rparr>]"
    have ps: "map priority ?xs = [1..?N]" using d by (simp add: dense_priorities_def)
    have lsh: "length shifted = length ?xs" by (simp add: shifted_def)
    have lmv: "length moved = length ?xs" by (simp add: moved_def lsh)
    have "map priority shifted = map g (map priority ?xs)"
      by (simp add: shifted_def g_def)
    then have msh: "map priority shifted = map g [1..?N]" by (simp add: ps)
    have mm: "map priority moved = (map g [1..?N])[i := t]"
      using i lsh by (simp add: moved_def map_update msh [symmetric])
    have mh: "map priority moved = map h [1..?N]"
    proof (rule nth_equalityI)
      show "length (map priority moved) = length (map h [1..?N])" by (simp add: lmv)
    next
      fix k
      assume "k < length (map priority moved)"
      then have k: "k < length ?xs" by (simp add: lmv)
      then have u: "[1..?N] ! k = 1 + int k" by (simp add: nth_upto)
      show "map priority moved ! k = map h [1..?N] ! k"
        unfolding mm using k u f by (cases "k = i") (simp_all add: h_def)
    qed
    have inj: "inj_on h {1..?N}"
      using t frng ne by (auto simp: inj_on_def h_def g_def split: if_splits)
    have dist: "distinct (map priority moved)"
      unfolding mh using inj by (simp add: distinct_map)
    have img: "priority ` set moved = {1..int (length moved)}"
    proof -
      have "priority ` set moved = set (map priority moved)" by simp
      also have "\<dots> = h ` {1..?N}" unfolding mh by simp
      also have "\<dots> = {1..?N}"
      proof (rule card_subset_eq)
        show "finite {1..?N}" by simp
        show "h ` {1..?N} \<subseteq> {1..?N}"
          using t frng by (auto simp: h_def g_def split: if_splits)
        show "card (h ` {1..?N}) = card {1..?N}"
          using inj by (rule card_image)
      qed
      finally show ?thesis by (simp add: lmv)
    qed
    have res: "spells (fst (move_spell r f t now)) = sort_key priority moved"
      using ne by (simp add: move_spell_def Some Let_def touch_def sort_spells_def moved_def shifted_def)
    have "map priority (sort_key priority moved) = [1..int (length moved)]"
      by (rule dense_after_sort [OF dist img])
    then show ?thesis
      by (simp add: dense_priorities_def res)
  qed
qed

lemma call_dense:
  assumes "dense_priorities r" and "target_in_range r c" and "call r c now = Inr r'"
  shows "dense_priorities r'"
proof (cases c)
  case (AddSpell n cnd prio)
  from assms(3) obtain k where "snd (add_spell r n cnd prio now) = Inr k"
      and "fst (add_spell r n cnd prio now) = r'"
    by (auto simp: AddSpell split: sum.splits)
  then have a: "add_spell r n cnd prio now = (r', Inr k)"
    by (simp add: prod_eq_iff)
  have "\<And>q. prio = Some q \<Longrightarrow> 1 \<le> q \<and> q \<le> int (length (spells r)) + 1"
    using assms(2) by (simp add: AddSpell)
  with assms(1) a show ?thesis by (rule add_spell_dense)
next
  case (RemoveSpell p)
  with assms show ?thesis by (auto intro: remove_spell_dense)
next
  case (MoveSpell f t)
  have "f \<in> priority ` set (spells r) \<Longrightarrow> 1 \<le> t \<and> t \<le> int (length (spells r))"
    using assms(2) by (auto simp: MoveSpell)
  with assms(1) have "dense_priorities (fst (move_spell r f t now))" by (rule move_spell_dense)
  with assms(3) show ?thesis by (simp add: MoveSpell)
qed

theorem rotation_init_priest_holy: "rotation_init ''Priest'' ''Holy'' 100 100 = Inr priest_holy"
  by code_simp

text \<open>
  Claim C1 states the invariant after every sequence of calls, also with an explicit
  priority given to \<open>add_spell\<close>. \<open>add_spell\<close> stores an explicit priority as it is: a
  first entry added at priority 5 has priority 5, not 1.
\<close>

theorem explicit_priority_counterexample:
  "dense_priorities priest_holy \<and>
   snd (add_spell priest_holy ''Heal'' ''true'' (Some 5) 101) = Inr 0 \<and>
   map priority (spells (fst (add_spell priest_holy ''Heal'' ''true'' (Some 5) 101))) = [5] \<and>
   map priority (spells (fst (add_spell priest_holy ''Heal'' ''true'' (Some 5) 101))) \<noteq> [1]"
  by code_simp

text \<open>
  Claim C1, as amended. Starting from a Rotation whose priorities are \<open>1..N\<close> in list
  order (a new Rotation is one), after every sequence of \<open>add_spell\<close>, \<open>remove_spell\<close>
  and \<open>move_spell\<close> calls that complete without error and whose explicit positions
  are in range (an explicit \<open>add_spell\<close> priority within \<open>1..N + 1\<close>, the target of a
  \<open>move_spell\<close> of an existing entry within \<open>1..N\<close>, for the \<open>N\<close> entries present at
  the call), the priorities are again exactly \<open>1..N'\<close> ascending in list order.
\<close>

theorem priorities_stay_dense:
  assumes "dense_priorities r" and "calls_in_range r cs" and "run_calls r cs = Inr r'"
  shows "map priority (spells r') = [1..int (length (spells r'))]"
  using assms
proof (induction cs arbitrary: r)
  case Nil
  then show ?case by (simp add: dense_priorities_def)
next
  case (Cons a cs)
  obtain c now where a: "a = (c, now)" by (cases a)
  from Cons.prems(3) obtain r1 where r1: "call r c now = Inr r1" and rest: "run_calls r1 cs = Inr r'"
    by (auto simp: a split: sum.splits)
  from Cons.prems(2) r1 have rng: "target_in_range r c" and rngs: "calls_in_range r1 cs"
    by (simp_all add: a)
  from Cons.prems(1) rng r1 have "dense_priorities r1" by (rule call_dense)
  from Cons.IH [OF this rngs rest] show ?case .
qed

theorem priorities_stay_dense_witness:
  "dense_priorities priest_holy \<and> calls_in_range priest_holy example_calls \<and>
   (\<exists>r'. run_calls priest_holy example_calls = Inr r' \<and>
         map priority (spells r') = [1..int (length (spells r'))] \<and>
         map name (spells r') = [''Heal'', ''Smite''])"
proof -
  have h1: "dense_priorities priest_holy" by code_simp
  have h2: "calls_in_range priest_holy example_calls" by code_simp
  have "\<not> isl (run_calls priest_holy example_calls)" by code_simp
  then obtain r' where h3: "run_calls priest_holy example_calls = Inr r'"
    by (cases "run_calls priest_holy example_calls") auto
  have "map_sum id (\<lambda>r. map name (spells r)) (run_calls priest_holy example_calls)
          = Inr [''Heal'', ''Smite'']"
    by code_simp
  then have h4: "map name (spells r') = [''Heal'', ''Smite'']"
    by (simp add: h3)
  from priorities_stay_dense [OF h1 h2 h3]
  have h5: "map priority (spells r') = [1..int (length (spells r'))]" .
  from h3 h5 h4 have "\<exists>r'. run_calls priest_holy example_calls = Inr r' \<and>
         map priority (spells r') = [1..int (length (spells r'))] \<and>
         map name (spells r') = [''Heal'', ''Smite'']"
    by (intro exI [of _ r'] conjI)
  with h1 h2 show ?thesis by (intro conjI)
qed

subsection \<open>Moving to the same priority, moving a missing entry\<close>




subsection \<open>Failed calls\<close>

text \<open>
  Claim C7. When \<open>add_spell\<close> raises (which it does exactly for a spell name outside
  the catalogue of the class and specialization, or for a condition the validator
  rejects) or \<open>update_spell\<close> raises (for a rejected condition among the fields), the
  Rotation after the call is the Rotation before it: both checks come before the first
  assignment.
\<close>

theorem failed_call_leaves_rotation:
  "(snd (add_spell r n c prio now) = Inl e \<longrightarrow> fst (add_spell r n c prio now) = r) \<and>
   ((\<exists>e. snd (add_spell r n c prio now) = Inl e) \<longleftrightarrow>
      (n \<notin> set (get_spells_for_spec (class_name (metadata r)) (spec_name (metadata r)))
       \<or> \<not> fst (validate_condition c))) \<and>
   (snd (update_spell r p kw now) = Inl e' \<longrightarrow> fst (update_spell r p kw now) = r)"
proof (intro conjI)
  show "snd (add_spell r n c prio now) = Inl e \<longrightarrow> fst (add_spell r n c prio now) = r"
    by (simp add: add_spell_def Let_def)
  show "(\<exists>e. snd (add_spell r n c prio now) = Inl e) \<longleftrightarrow>
      (n \<notin> set (get_spells_for_spec (class_name (metadata r)) (spec_name (metadata r)))
       \<or> \<not> fst (validate_condition c))"
    by (simp add: add_spell_def Let_def)
  show "snd (update_spell r p kw now) = Inl e' \<longrightarrow> fst (update_spell r p kw now) = r"
    by (simp add: update_spell_def split: option.splits)
qed

theorem failed_call_leaves_rotation_witness:
  "snd (add_spell one_spell ''Fireball'' ''true'' (Some 1) 102)
     = Inl (ValueError ''Spell Fireball not found for Priest/Holy'') \<and>
   fst (add_spell one_spell ''Fireball'' ''true'' (Some 1) 102) = one_spell \<and>
   snd (add_spell one_spell ''Renew'' ''player.health >30'' (Some 1) 102)
     = Inl (ValueError ''Invalid condition: Invalid operator usage'') \<and>
   fst (add_spell one_spell ''Renew'' ''player.health >30'' (Some 1) 102) = one_spell \<and>
   snd (update_spell one_spell 1 bad_condition_kwargs 102)
     = Inl (ValueError ''Invalid condition: Invalid operator usage'') \<and>
   fst (update_spell one_spell 1 bad_condition_kwargs 102) = one_spell"
proof -
  have a1: "snd (add_spell one_spell ''Fireball'' ''true'' (Some 1) 102)
     = Inl (ValueError ''Spell Fireball not found for Priest/Holy'')" by code_simp
  have a2: "snd (add_spell one_spell ''Renew'' ''player.health >30'' (Some 1) 102)
     = Inl (ValueError ''Invalid condition: Invalid operator usage'')" by code_simp
  have a3: "snd (update_spell one_spell 1 bad_condition_kwargs 102)
     = Inl (ValueError ''Invalid condition: Invalid operator usage'')" by code_simp
  note t1 = failed_call_leaves_rotation
         [of one_spell "''Fireball''" "''true''" "Some 1" 102
             "ValueError ''Spell Fireball not found for Priest/Holy''" 1 bad_condition_kwargs
             "ValueError ''Invalid condition: Invalid operator usage''"]
  note t2 = failed_call_leaves_rotation
         [of one_spell "''Renew''" "''player.health >30''" "Some 1" 102
             "ValueError ''Invalid condition: Invalid operator usage''"]
  from t1 [THEN conjunct1] a1
  have b1: "fst (add_spell one_spell ''Fireball'' ''true'' (Some 1) 102) = one_spell"
    by (rule mp)
  from t1 [THEN conjunct2, THEN conjunct2] a3
  have b3: "fst (update_spell one_spell 1 bad_condition_kwargs 102) = one_spell"
    by (rule mp)
  from t2 [THEN conjunct1] a2
  have b2: "fst (add_spell one_spell ''Renew'' ''player.health >30'' (Some 1) 102) = one_spell"
    by (rule mp)
  from a1 a2 a3 b1 b2 b3 show ?thesis by (intro conjI)
qed

section \<open>Properties of the importers\<close>

subsection \<open>The JSON round trip\<close>

text \<open>
  Claim C2 says that importing the export of a Rotation gives the Rotation back, with
  all its metadata and \<open>modifiedAt\<close> among them. \<open>from_json\<close> assigns \<open>modified_at\<close>
  from the document and then adds the entries with \<open>add_spell\<close>, which sets
  \<open>modified_at\<close> to the time of each call: a Rotation with one entry and
  \<open>modified_at = 101\<close>, imported while the clock reads 200, 201, 202, comes back with
  \<open>modified_at = 202\<close> and is otherwise the same. Without entries nothing is added and
  the Rotation comes back as it was.
\<close>

theorem json_round_trip_loses_modified_at:
  "modified_at (metadata one_spell) = 101 \<and>
   from_json import_clock (to_json one_spell) = Inr (touch one_spell 202) \<and>
   from_json import_clock (to_json one_spell) \<noteq> Inr one_spell \<and>
   from_json import_clock (to_json priest_holy) = Inr priest_holy"
  by code_simp

text \<open>
  What the JSON round trip does keep. For a Rotation the importer accepts back, the
  import of the export is the Rotation itself, except that \<open>modified_at\<close> is the
  clock reading of the last \<open>add_spell\<close> when there is an entry.
\<close>

lemma as_tags_round_trip: "as_tags (JArray (map JString ts)) = Inr ts"
proof -
  have "as_string_list ''tags'' (map JString ts) = Inr ts"
    by (induction ts) (simp_all add: as_string_def exn_bind_def)
  then show ?thesis by (simp add: as_tags_def)
qed

lemma add_spell_at_end:
  assumes "spells r = before"
    and "\<forall>x \<in> set before. priority x < p"
    and "sorted (map priority before)"
    and "n \<in> set (get_spells_for_spec (class_name (metadata r)) (spec_name (metadata r)))"
    and "fst (validate_condition c)"
  shows "add_spell r n c (Some p) now =
           (touch (r\<lparr>spells := before @ [\<lparr>name = n, condition = c, priority = p, enabled = True,
                                             notes = '''', spell_id = None\<rparr>]\<rparr>) now,
            Inr (length before))"
proof -
  define e where "e = \<lparr>name = n, condition = c, priority = p, enabled = True,
                        notes = '''', spell_id = None\<rparr>"
  let ?g = "\<lambda>m::bool \<times> SpellEntry. priority (snd m)"
  have shifted: "map (\<lambda>s. if priority s \<ge> p then s\<lparr>priority := priority s + 1\<rparr> else s) before = before"
    using assms(2) by (intro map_idI) auto
  have "sorted (map ?g (map (Pair False) before @ [(True, e)]))"
    using assms(2,3) by (auto simp: sorted_append comp_def e_def intro: less_imp_le)
  then have sorted: "sort_key ?g (map (Pair False) before @ [(True, e)]) = map (Pair False) before @ [(True, e)]"
    by (rule sort_key_id_if_sorted)
  have pos: "takeWhile (\<lambda>m. \<not> fst m) (map (Pair False) before @ [(True, e)]) = map (Pair False) before"
    by (induction before) simp_all
  show ?thesis
    using assms(1,4,5)
    by (simp add: add_spell_def Let_def shifted e_def [symmetric] sorted pos comp_def)
qed

lemma from_json_spells_round_trip:
  assumes "spells r = before"
    and "sorted_wrt (<) (map priority (before @ todo))"
    and "list_all (\<lambda>s. name s \<in> set (get_spells_for_spec (class_name (metadata r)) (spec_name (metadata r))) \<and>
                    fst (validate_condition (condition s)) \<and> spell_id s = None) todo"
  shows "from_json_spells clk i r (map spell_to_json todo) =
           Inr (if todo = [] then r
                else touch (r\<lparr>spells := before @ todo\<rparr>) (clk (i + length todo - 1)))"
  using assms
proof (induction todo arbitrary: r before i)
  case Nil
  show ?case by simp
next
  case (Cons s rest)
  let ?e = "\<lparr>name = name s, condition = condition s, priority = priority s, enabled = True,
             notes = '''', spell_id = None\<rparr>"
  from Cons.prems(2) have lt: "\<forall>x \<in> set before. priority x < priority s"
    and sb: "sorted_wrt (<) (map priority before)"
    by (auto simp: sorted_wrt_append)
  from sb have sb': "sorted (map priority before)"
    by (simp add: strict_sorted_iff)
  from Cons.prems(3) have ok: "name s \<in> set (get_spells_for_spec (class_name (metadata r)) (spec_name (metadata r)))"
      "fst (validate_condition (condition s))" "spell_id s = None"
    by simp_all
  define r1 where "r1 = touch (r\<lparr>spells := before @ [?e]\<rparr>) (clk i)"
  have add: "add_spell r (name s) (condition s) (Some (priority s)) (clk i) = (r1, Inr (length before))"
    unfolding r1_def using Cons.prems(1) lt sb' ok(1,2) by (rule add_spell_at_end)
  have same: "?e\<lparr>enabled := enabled s, notes := notes s\<rparr> = s"
    using ok(3) by simp
  define r2 where "r2 = r1\<lparr>spells := (spells r1)[length before := (spells r1 ! length before)
                             \<lparr>enabled := enabled s, notes := notes s\<rparr>]\<rparr>"
  have r2: "r2 = touch (r\<lparr>spells := before @ [s]\<rparr>) (clk i)"
    using same by (simp add: r2_def r1_def touch_def)
  have step: "from_json_spells clk i r (map spell_to_json (s # rest))
                = from_json_spells clk (Suc i) r2 (map spell_to_json rest)"
    by (simp add: spell_to_json_def subscript_def exn_bind_def as_string_def as_priority_def
          as_bool_def add r2_def)
  have sp2: "spells r2 = before @ [s]" by (simp add: r2 touch_def)
  have so2: "sorted_wrt (<) (map priority ((before @ [s]) @ rest))"
    using Cons.prems(2) by simp
  have ok2: "list_all (\<lambda>s. name s \<in> set (get_spells_for_spec (class_name (metadata r2)) (spec_name (metadata r2))) \<and>
                    fst (validate_condition (condition s)) \<and> spell_id s = None) rest"
    using Cons.prems(3) by (simp add: r2 touch_def)
  have "from_json_spells clk (Suc i) r2 (map spell_to_json rest) =
          Inr (if rest = [] then r2
               else touch (r2\<lparr>spells := (before @ [s]) @ rest\<rparr>) (clk (Suc i + length rest - 1)))"
    using sp2 so2 ok2 by (rule Cons.IH)
  also have "(if rest = [] then r2
               else touch (r2\<lparr>spells := (before @ [s]) @ rest\<rparr>) (clk (Suc i + length rest - 1)))
             = touch (r\<lparr>spells := before @ s # rest\<rparr>) (clk (i + length (s # rest) - 1))"
    by (simp add: r2 touch_def)
  finally show ?case using step by simp
qed

theorem json_round_trip_except_modified_at:
  assumes "importable r"
  shows "from_json clk (to_json r) =
           Inr (if spells r = [] then r else touch r (clk (Suc (length (spells r)))))"
proof -
  let ?cls = "class_name (metadata r)"
  let ?spc = "spec_name (metadata r)"
  from assms have sid: "spec_id r = get_spec_id ?cls ?spc" "spec_id r \<noteq> None" "spec_id r \<noteq> Some 0"
    and ok: "list_all (\<lambda>s. name s \<in> set (get_spells_for_spec ?cls ?spc) \<and>
                    fst (validate_condition (condition s)) \<and> spell_id s = None) (spells r)"
    and so: "sorted_wrt (<) (map priority (spells r))"
    unfolding importable_def by blast+
  define r0 where "r0 = r\<lparr>spells := []\<rparr>"
  have ok0: "list_all (\<lambda>s. name s \<in> set (get_spells_for_spec (class_name (metadata r0)) (spec_name (metadata r0))) \<and>
                    fst (validate_condition (condition s)) \<and> spell_id s = None) (spells r)"
    using ok by (simp add: r0_def)
  have loop: "from_json_spells clk 2 r0 (map spell_to_json (spells r)) =
           Inr (if spells r = [] then r0
                else touch (r0\<lparr>spells := [] @ spells r\<rparr>) (clk (2 + length (spells r) - 1)))"
    using _ _ ok0 by (rule from_json_spells_round_trip) (simp_all add: r0_def so)
  have init: "rotation_init ?cls ?spc t1 t2 =
                Inr \<lparr>metadata =
                 \<lparr>meta_name = ?cls @ '' '' @ ?spc @ '' Rotation'', class_name = ?cls, spec_name = ?spc,
                  author = '''', version = ''1.0'', description = '''',
                  created_at = t1, modified_at = t2, tags = []\<rparr>,
               spells = [], spec_id = spec_id r\<rparr>" for t1 t2
    using sid by (simp add: rotation_init_def Let_def)
  have meta: "\<lparr>meta_name = meta_name (metadata r), class_name = ?cls, spec_name = ?spc,
               author = author (metadata r), version = version (metadata r),
               description = description (metadata r), created_at = created_at (metadata r),
               modified_at = modified_at (metadata r), tags = tags (metadata r)\<rparr> = metadata r"
    by (rule RotationMetadata.equality) simp_all
  have whole: "\<lparr>metadata = metadata r, spells = [], spec_id = spec_id r\<rparr> = r0"
    unfolding r0_def by (rule Rotation.equality) simp_all
  have body: "from_json_body clk (to_json r) = from_json_spells clk 2 r0 (map spell_to_json (spells r))"
    by (simp add: from_json_body_def to_json_def check_format_version_def subscript_def
          exn_bind_def as_catalogue_key_def as_string_def as_real_def as_tags_round_trip
          iterate_def init meta whole)
  have "from_json clk (to_json r) =
          Inr (if spells r = [] then r0
                else touch (r0\<lparr>spells := [] @ spells r\<rparr>) (clk (2 + length (spells r) - 1)))"
    by (simp add: from_json_def body loop reraise_def)
  also have "(if spells r = [] then r0
                else touch (r0\<lparr>spells := [] @ spells r\<rparr>) (clk (2 + length (spells r) - 1)))
           = (if spells r = [] then r else touch r (clk (Suc (length (spells r)))))"
    by (simp add: r0_def touch_def)
  finally show ?thesis .
qed

lemma importable_examples: "importable priest_holy \<and> importable one_spell"
  by code_simp

text \<open>
  The import adds every entry at its explicit priority, shifting the entries already
  added: a Rotation in which two entries share a priority comes back reordered and
  renumbered.
\<close>

theorem json_round_trip_duplicate_priorities:
  "map name (spells duplicate_priorities) = [''Heal'', ''Renew''] \<and>
   map priority (spells duplicate_priorities) = [2, 2] \<and>
   map_sum id (\<lambda>r. (map name (spells r), map priority (spells r)))
     (from_json import_clock (to_json duplicate_priorities)) = Inr ([''Renew'', ''Heal''], [2, 3])"
  by code_simp

subsection \<open>Importing the registration format\<close>





















text \<open>The whole Rotation imported from the example text.\<close>

theorem soe_example_imported:
  "from_soe import_clock soe_example =
     Inr \<lparr>metadata =
            \<lparr>meta_name = ''Priest Holy Rotation'', class_name = ''Priest'', spec_name = ''Holy'',
             author = ''someone'', version = ''1.0'', description = '''',
             created_at = 200, modified_at = 203, tags = []\<rparr>,
          spells =
            [\<lparr>name = ''Heal'', condition = ''true'', priority = 1, enabled = True,
              notes = '''', spell_id = None\<rparr>,
             \<lparr>name = ''Renew'', condition = ''player.moving'', priority = 2, enabled = True,
              notes = '''', spell_id = None\<rparr>],
          spec_id = Some 257\<rparr>"
  by code_simp

subsection \<open>The importer of core/rotation.py\<close>

text \<open>
  Claim C10. \<open>Rotation.from_soe_format\<close> raises ValueError for every input: its first
  statement reads the name \<open>re\<close>, which its module does not bind, and the handler
  re-raises the NameError as a ValueError.
\<close>

theorem from_soe_format_always_raises:
  "from_soe_format clk soe_code =
     Inl (ValueError (''Error parsing SOE Engine code: name '' @ [CHR 0x27] @ ''re'' @ [CHR 0x27] @ '' is not defined''))"
  by (simp add: from_soe_format_def from_soe_format_body_def load_global_def
        rotation_module_names_def exn_bind_def reraise_def)

end
